theory Spec2Isabelle
  imports Complex_Main "HOL-Library.Sublist"
begin

section \<open>Python values\<close>

text \<open>
  The values \<^verbatim>\<open>json.loads\<close> produces: \<^verbatim>\<open>None\<close>, booleans, integers, floats
  (a finite float by its rational value), strings, lists and dicts. A dict is kept as the
  list of its items in iteration order; a lookup takes the first entry of a key, and a
  dict built by Python has each key once. \<^verbatim>\<open>dict.get\<close> of an absent key gives its
  default, which is \<^verbatim>\<open>None\<close> when none is passed, so \<open>JNone\<close> also stands for
  "no value".
\<close>

datatype json = JNone | JBool bool | JInt int | JFloat rat | JStr string
  | JList "json list" | JDict "(string \<times> json) list"

text \<open>The exceptions the modelled code can raise, as values.\<close>

datatype exn =
    AttributeError      \<comment> \<open>a method looked up on a value that has none of that name\<close>
  | TypeError           \<comment> \<open>iteration over a value that is not iterable\<close>
  | IOError             \<comment> \<open>\<^verbatim>\<open>open\<close> of a path that cannot be read\<close>
  | ValueError          \<comment> \<open>\<^verbatim>\<open>json.loads\<close> of text that is not JSON\<close>
  | FormatError         \<comment> \<open>the KeyError, IndexError or ValueError of \<^verbatim>\<open>str.format\<close>\<close>
  | FormatNotModelled   \<comment> \<open>the answer of \<open>py_format\<close> to a replacement field it does not cover\<close>
  | AssertionError      \<comment> \<open>a failed \<^verbatim>\<open>assert\<close>\<close>
  | RemoteError         \<comment> \<open>an exception raised by a call of the warehouse client\<close>

text \<open>Python's truth value of an object, as \<^verbatim>\<open>and\<close> and \<^verbatim>\<open>if\<close> test it.\<close>

fun truthy :: "json \<Rightarrow> bool" where
  "truthy JNone = False"
| "truthy (JBool b) = b"
| "truthy (JInt n) = (n \<noteq> 0)"
| "truthy (JFloat r) = (r \<noteq> 0)"
| "truthy (JStr s) = (s \<noteq> [])"
| "truthy (JList xs) = (xs \<noteq> [])"
| "truthy (JDict kvs) = (kvs \<noteq> [])"

text \<open>\<^verbatim>\<open>d.get(key, dflt)\<close> on the items of a dict.\<close>

definition dict_get :: "(string \<times> json) list \<Rightarrow> string \<Rightarrow> json \<Rightarrow> json" where
  "dict_get kvs key dflt = (case map_of kvs key of None \<Rightarrow> dflt | Some v \<Rightarrow> v)"

text \<open>
  \<^verbatim>\<open>str.lower\<close>. Only the letters A to Z are mapped; the one comparison the code makes is
  with \<^verbatim>\<open>'record'\<close>, and no other character lowers to one of its letters.
\<close>

definition lower_char :: "char \<Rightarrow> char" where
  "lower_char c =
     (case map_of (zip ''ABCDEFGHIJKLMNOPQRSTUVWXYZ'' ''abcdefghijklmnopqrstuvwxyz'') c of
        None \<Rightarrow> c
      | Some l \<Rightarrow> l)"

text \<open>\<^verbatim>\<open>x.lower()\<close>: only a string has the method.\<close>

fun lower :: "json \<Rightarrow> exn + string" where
  "lower (JStr s) = Inr (map lower_char s)"
| "lower _ = Inl AttributeError"

section \<open>The schema loader\<close>

text \<open>
  \<^verbatim>\<open>google.cloud.bigquery.SchemaField\<close> stores the arguments of its constructor;
  \<^verbatim>\<open>fields\<close> defaults to the empty tuple.
\<close>

datatype SchemaField = SchemaField (name: json) (field_type: json) (mode: json)
  (description: json) (fields: "SchemaField list")

text \<open>
  The loop \<^verbatim>\<open>for field in json_schema\<close> when \<^verbatim>\<open>json_schema\<close> is a dict or a string:
  the elements are strings (the keys, the characters), and the first statement of the
  body, \<^verbatim>\<open>field.get('type')\<close>, raises on a string.
\<close>

fun for_each_str :: "string list \<Rightarrow> exn + SchemaField list" where
  "for_each_str [] = Inr []"
| "for_each_str (field # rest) = Inl AttributeError"

text \<open>
  \<^verbatim>\<open>read_bigquery_schema_from_json_recursive\<close>. \<open>for_each_field\<close> is its loop over the
  elements of a list, \<open>schema_of_field\<close> the body of the loop: the value appended to
  \<^verbatim>\<open>result\<close>, or the exception that ends the call. The condition of the \<^verbatim>\<open>if\<close> reads
  \<^verbatim>\<open>field.get('type')\<close> with no default and calls \<^verbatim>\<open>lower\<close> on it; the constructor
  calls read it again with the default \<^verbatim>\<open>'STRING'\<close>.
\<close>

function (sequential)
  read_bigquery_schema_from_json_recursive :: "json \<Rightarrow> exn + SchemaField list"
  and for_each_field :: "json list \<Rightarrow> exn + SchemaField list"
  and schema_of_field :: "json \<Rightarrow> exn + SchemaField"
where
  "read_bigquery_schema_from_json_recursive (JList xs) = for_each_field xs"
| "read_bigquery_schema_from_json_recursive (JDict kvs) = for_each_str (map fst kvs)"
| "read_bigquery_schema_from_json_recursive (JStr s) = for_each_str (map (\<lambda>c. [c]) s)"
| "read_bigquery_schema_from_json_recursive _ = Inl TypeError"
| "for_each_field [] = Inr []"
| "for_each_field (field # rest) =
     (case schema_of_field field of
        Inl e \<Rightarrow> Inl e
      | Inr schema \<Rightarrow>
          (case for_each_field rest of
             Inl e \<Rightarrow> Inl e
           | Inr result \<Rightarrow> Inr (schema # result)))"
| "schema_of_field (JDict field) =
     (case lower (dict_get field ''type'' JNone) of
        Inl e \<Rightarrow> Inl e
      | Inr t \<Rightarrow>
          if t = ''record'' \<and> truthy (dict_get field ''fields'' JNone)
          then (case read_bigquery_schema_from_json_recursive (dict_get field ''fields'' JNone) of
                  Inl e \<Rightarrow> Inl e
                | Inr children \<Rightarrow>
                    Inr (SchemaField (dict_get field ''name'' JNone)
                           (dict_get field ''type'' (JStr ''STRING''))
                           (dict_get field ''mode'' (JStr ''NULLABLE''))
                           (dict_get field ''description'' JNone) children))
          else Inr (SchemaField (dict_get field ''name'' JNone)
                      (dict_get field ''type'' (JStr ''STRING''))
                      (dict_get field ''mode'' (JStr ''NULLABLE''))
                      (dict_get field ''description'' JNone) []))"
| "schema_of_field _ = Inl AttributeError"
  by pat_completeness auto
termination
proof -
  have sz: "size (dict_get kvs key JNone) \<le> size_list (size_prod (\<lambda>x. 0) size) kvs"
    for kvs :: "(string \<times> json) list" and key
    by (induction kvs) (auto simp: dict_get_def)
  show ?thesis
    by (relation "measure (case_sum size (case_sum (size_list size) size))")
       (auto simp: sz less_Suc_eq_le)
qed

text \<open>
  The condition under which the loader recurses: the type is \<^verbatim>\<open>record\<close> in any
  capitalisation and the value under \<^verbatim>\<open>fields\<close> is true (a non-empty list, for a
  schema file).
\<close>

definition record_with_fields :: "(string \<times> json) list \<Rightarrow> bool" where
  "record_with_fields field \<longleftrightarrow>
     lower (dict_get field ''type'' JNone) = Inr ''record'' \<and>
     truthy (dict_get field ''fields'' JNone)"

text \<open>
  \<open>parsed_from f s\<close>: the schema field \<open>s\<close> is the field object \<open>f\<close> read attribute by
  attribute, its children the recursive parse of the nested list when the loader's
  condition holds and none otherwise.
\<close>

definition parsed_from :: "json \<Rightarrow> SchemaField \<Rightarrow> bool" where
  "parsed_from f s \<longleftrightarrow>
     (case f of
        JDict field \<Rightarrow>
          name s = dict_get field ''name'' JNone \<and>
          field_type s = dict_get field ''type'' (JStr ''STRING'') \<and>
          mode s = dict_get field ''mode'' (JStr ''NULLABLE'') \<and>
          description s = dict_get field ''description'' JNone \<and>
          (if record_with_fields field
           then read_bigquery_schema_from_json_recursive (dict_get field ''fields'' JNone)
                  = Inr (fields s)
           else fields s = [])
      | _ \<Rightarrow> False)"

text \<open>
  A schema description whose field objects, at every depth the loader visits, are dicts
  with a string under \<^verbatim>\<open>type\<close>.
\<close>

function (sequential) typed_schema :: "json \<Rightarrow> bool" and typed_field :: "json \<Rightarrow> bool" where
  "typed_schema (JList xs) = list_all typed_field xs"
| "typed_schema _ = False"
| "typed_field (JDict field) =
     (case dict_get field ''type'' JNone of
        JStr t \<Rightarrow>
          (if map lower_char t = ''record'' \<and> truthy (dict_get field ''fields'' JNone)
           then typed_schema (dict_get field ''fields'' JNone)
           else True)
      | _ \<Rightarrow> False)"
| "typed_field _ = False"
  by pat_completeness auto
termination
proof -
  have sz: "size (dict_get kvs key JNone) \<le> size_list (size_prod (\<lambda>x. 0) size) kvs"
    for kvs :: "(string \<times> json) list" and key
    by (induction kvs) (auto simp: dict_get_def)
  have el: "x \<in> set xs \<Longrightarrow> size x \<le> size_list size xs" for x :: json and xs
    by (induction xs) auto
  show ?thesis
    by (relation "measure (case_sum size size)") (auto simp: sz el less_Suc_eq_le)
qed


section \<open>The parameterized query loader\<close>

text \<open>
  \<^verbatim>\<open>s.replace(old, new)\<close>: the occurrences of \<open>old\<close> in \<open>s\<close> are found from the left,
  each search starting behind the occurrence before, and replaced by \<open>new\<close>. For an empty
  \<open>old\<close> Python puts \<open>new\<close> in front of every character and at the end.
\<close>

fun replace :: "string \<Rightarrow> string \<Rightarrow> string \<Rightarrow> string" where
  "replace s [] new = new @ concat (map (\<lambda>c. c # new) s)"
| "replace [] (x # old) new = []"
| "replace (c # cs) (x # old) new =
     (if prefix (x # old) (c # cs)
      then new @ replace (drop (length (x # old)) (c # cs)) (x # old) new
      else c # replace cs (x # old) new)"

text \<open>\<^verbatim>\<open>'{{{{{key}}}}}'.format(key=key)\<close>: the key between two pairs of braces.\<close>

definition token :: "string \<Rightarrow> string" where
  "token key = ''{{'' @ key @ ''}}''"

text \<open>
  The loop of \<^verbatim>\<open>read_file\<close> over \<^verbatim>\<open>environment.items()\<close>, an environment being the list
  of its items in iteration order: each replacement works on the result of the one
  before.
\<close>

definition substitute :: "(string \<times> string) list \<Rightarrow> string \<Rightarrow> string" where
  "substitute environment content =
     fold (\<lambda>(key, val) content. replace content (token key) val) environment content"

text \<open>
  \<^verbatim>\<open>read_file(filepath, environment=None)\<close>. The file system is a map from paths to
  contents; \<^verbatim>\<open>open\<close> raises when the path has none. No environment stands for the
  empty one.
\<close>

definition read_file ::
  "(string \<rightharpoonup> string) \<Rightarrow> string \<Rightarrow> (string \<times> string) list option \<Rightarrow> exn + string" where
  "read_file files filepath environment =
     (case files filepath of
        None \<Rightarrow> Inl IOError
      | Some content \<Rightarrow>
          Inr (substitute (case environment of None \<Rightarrow> [] | Some e \<Rightarrow> e) content))"

text \<open>
  \<^verbatim>\<open>read_bigquery_schema_from_file\<close>. \<^verbatim>\<open>json.loads\<close> is a parameter: it gives the parsed
  value or raises.
\<close>

definition read_bigquery_schema_from_file ::
  "(string \<rightharpoonup> string) \<Rightarrow> (string \<Rightarrow> exn + json) \<Rightarrow> string \<Rightarrow> exn + SchemaField list" where
  "read_bigquery_schema_from_file files json_loads filepath =
     (case read_file files filepath None of
        Inl e \<Rightarrow> Inl e
      | Inr file_content \<Rightarrow>
          (case json_loads file_content of
             Inl e \<Rightarrow> Inl e
           | Inr json_content \<Rightarrow> read_bigquery_schema_from_json_recursive json_content))"

text \<open>
  A template as the specification sees it: literal text and placeholders. \<open>render\<close> is
  the text of the template, \<open>filled\<close> the text in which every placeholder of a key of the
  environment is replaced by that key's value and everything else is left as it is.
\<close>

datatype segment = Text string | Placeholder string

fun render :: "segment list \<Rightarrow> string" where
  "render [] = []"
| "render (Text s # segs) = s @ render segs"
| "render (Placeholder k # segs) = token k @ render segs"

fun fill :: "(string \<times> string) list \<Rightarrow> segment \<Rightarrow> segment" where
  "fill environment (Text s) = Text s"
| "fill environment (Placeholder k) =
     (case map_of environment k of None \<Rightarrow> Placeholder k | Some v \<Rightarrow> Text v)"

text \<open>One replacement seen on the segments: the placeholders of one key become text.\<close>

fun fill1 :: "string \<Rightarrow> string \<Rightarrow> segment \<Rightarrow> segment" where
  "fill1 k0 v (Text s) = Text s"
| "fill1 k0 v (Placeholder k) = (if k = k0 then Text v else Placeholder k)"

definition filled :: "(string \<times> string) list \<Rightarrow> segment list \<Rightarrow> string" where
  "filled environment segs = render (map (fill environment) segs)"

text \<open>
  Templates and environments in which two opening braces in a row only open a
  placeholder. A text is plain when it holds no two opening braces in a row and does not
  end with an opening brace (single braces, as in \<^verbatim>\<open>[0-9a-f]{64}\<close>, are plain). A
  template is plain when its literal texts are plain and its placeholder names hold no
  brace; an environment when no key holds a closing brace and every value is plain.
\<close>

fun plain_text :: "string \<Rightarrow> bool" where
  "plain_text [] = True"
| "plain_text [c] = (c \<noteq> CHR ''{'')"
| "plain_text (c # d # s) = (\<not> (c = CHR ''{'' \<and> d = CHR ''{'') \<and> plain_text (d # s))"

fun plain_segment :: "segment \<Rightarrow> bool" where
  "plain_segment (Text s) = plain_text s"
| "plain_segment (Placeholder k) = (CHR ''{'' \<notin> set k \<and> CHR ''}'' \<notin> set k)"

definition plain_environment :: "(string \<times> string) list \<Rightarrow> bool" where
  "plain_environment environment =
     list_all (\<lambda>(key, val). CHR ''}'' \<notin> set key \<and> plain_text val) environment"

section \<open>Strings and paths\<close>

text \<open>\<^verbatim>\<open>str\<close> of an integer, as \<^verbatim>\<open>format\<close> writes it: decimal digits, a sign when negative.\<close>

definition digit_char :: "nat \<Rightarrow> char" where
  "digit_char d = ''0123456789'' ! d"

fun str_nat :: "nat \<Rightarrow> string" where
  "str_nat n = (if n < 10 then [digit_char n] else str_nat (n div 10) @ [digit_char (n mod 10)])"

declare str_nat.simps [simp del]

definition str_int :: "int \<Rightarrow> string" where
  "str_int i = (if i < 0 then CHR ''-'' # str_nat (nat (- i)) else str_nat (nat i))"

text \<open>\<^verbatim>\<open>os.path.join(a, b)\<close> on POSIX paths.\<close>

definition path_join :: "string \<Rightarrow> string \<Rightarrow> string" where
  "path_join a b =
     (if b \<noteq> [] \<and> hd b = CHR ''/'' then b
      else if a = [] \<or> last a = CHR ''/'' then a @ b
      else a @ ''/'' @ b)"

section \<open>The pipeline and the warehouse\<close>

text \<open>
  What \<^verbatim>\<open>build_load_dag\<close> and the callables it defines read: three of its arguments,
  the variable \<^verbatim>\<open>DAGS_FOLDER\<close> of the process environment, the files under the DAGs
  folder, the default project of the warehouse client, and two functions of the Python
  library, each giving its result or the exception it raises: \<^verbatim>\<open>json.loads\<close>, and
  \<^verbatim>\<open>str.format\<close> called with the one keyword \<^verbatim>\<open>chain\<close> (\<open>str_format p s c\<close> is
  \<^verbatim>\<open>s.format(chain=c)\<close>).
\<close>

record pipeline =
  output_bucket :: string
  destination_dataset_project_id :: string
  chain :: string
  DAGS_FOLDER :: "string option"
  file_system :: "string \<rightharpoonup> string"
  json_loads :: "string \<Rightarrow> exn + json"
  str_format :: "string \<Rightarrow> string \<Rightarrow> exn + string"
  client_project :: string

definition dataset_name :: "pipeline \<Rightarrow> string" where
  "dataset_name p = chain p @ ''_blockchain''"

definition dataset_name_raw :: "pipeline \<Rightarrow> string" where
  "dataset_name_raw p = chain p @ ''_blockchain_raw''"

definition dataset_name_temp :: "pipeline \<Rightarrow> string" where
  "dataset_name_temp p = chain p @ ''_blockchain_temp''"

text \<open>
  The dict \<^verbatim>\<open>environment\<close>, its items in the order written. The order in which Python
  yields them matters to \<^verbatim>\<open>read_file\<close> only when a value holds a brace.
\<close>

definition pipeline_environment :: "pipeline \<Rightarrow> (string \<times> string) list" where
  "pipeline_environment p =
     [(''dataset_name'', dataset_name p),
      (''dataset_name_raw'', dataset_name_raw p),
      (''dataset_name_temp'', dataset_name_temp p),
      (''destination_dataset_project_id'', destination_dataset_project_id p)]"

definition dags_folder :: "pipeline \<Rightarrow> string" where
  "dags_folder p = (case DAGS_FOLDER p of None \<Rightarrow> ''/home/airflow/gcs/dags'' | Some d \<Rightarrow> d)"

text \<open>Table references, tables and job configurations of the warehouse client.\<close>

record table_ref =
  project :: string
  dataset_id :: string
  table_id :: string

record table =
  table_reference :: table_ref
  table_description :: "string option"
  time_partitioning :: "string option"
  table_schema :: "SchemaField list"
  view_query :: "string option"
  view_use_legacy_sql :: "bool option"

text \<open>\<^verbatim>\<open>Table(ref)\<close>: a table with nothing set.\<close>

definition Table :: "table_ref \<Rightarrow> table" where
  "Table ref = \<lparr>table_reference = ref, table_description = None, time_partitioning = None,
                table_schema = [], view_query = None, view_use_legacy_sql = None\<rparr>"

record query_job_config =
  priority :: string
  destination :: table_ref

record copy_job_config =
  write_disposition :: string

text \<open>
  The calls of the warehouse client that the enrichment makes: \<^verbatim>\<open>create_table(table)\<close>,
  \<^verbatim>\<open>query(sql, location, job_config)\<close>,
  \<^verbatim>\<open>copy_table(sources, destination, location, job_config)\<close> and
  \<^verbatim>\<open>delete_table(table)\<close>. \<open>target\<close> is the table a call writes: the table created, the
  destination of the query or of the copy, the table deleted.
\<close>

datatype request =
    CreateTable table
  | Query string string query_job_config
  | CopyTable table_ref table_ref string copy_job_config
  | DeleteTable table_ref

fun target :: "request \<Rightarrow> table_ref" where
  "target (CreateTable t) = table_reference t"
| "target (Query text loc config) = destination config"
| "target (CopyTable sources dest loc config) = dest"
| "target (DeleteTable ref) = ref"

text \<open>
  What the warehouse does in one execution is not decided by the code; it is a parameter.
  A job has what \<^verbatim>\<open>submit_bigquery_job\<close> and its callers read of it: whether
  \<^verbatim>\<open>job.result()\<close> raises, \<^verbatim>\<open>job.errors\<close> and \<^verbatim>\<open>job.state\<close>. Each call of the client
  raises or returns: \<^verbatim>\<open>create_table\<close> a table, of which the code reads the
  \<^verbatim>\<open>table_id\<close>, \<^verbatim>\<open>query\<close> and \<^verbatim>\<open>copy_table\<close> a job.
\<close>

record job =
  result_raises :: bool
  errors :: "string list option"
  state :: string

record remote =
  create_table :: "exn + string"
  query :: "exn + job"
  copy_table :: "exn + job"
  delete_table :: "exn + unit"

text \<open>
  A run of a callable: the value it returns or the exception it raises, and the requests
  it has sent to the warehouse, in order. \<open>evaluate\<close> is a step on the host, \<open>send\<close> a
  call of the client with its answer, \<open>and_then\<close> sequencing: an exception ends the run.
\<close>

type_synonym 'a run = "(exn + 'a) \<times> request list"

definition evaluate :: "exn + 'a \<Rightarrow> 'a run" where
  "evaluate r = (r, [])"

definition send :: "request \<Rightarrow> exn + 'a \<Rightarrow> 'a run" where
  "send req answer = (answer, [req])"

definition and_then :: "'a run \<Rightarrow> ('a \<Rightarrow> 'b run) \<Rightarrow> 'b run" where
  "and_then m f =
     (case m of
        (Inl e, sent) \<Rightarrow> (Inl e, sent)
      | (Inr x, sent) \<Rightarrow> (case f x of (r, sent') \<Rightarrow> (r, sent @ sent')))"

text \<open>\<^verbatim>\<open>assert b\<close>, with assertions enabled (the interpreter does not run with \<^verbatim>\<open>-O\<close>).\<close>

definition py_assert :: "bool \<Rightarrow> exn + unit" where
  "py_assert b = (if b then Inr () else Inl AssertionError)"

text \<open>
  \<^verbatim>\<open>submit_bigquery_job(job, configuration)\<close>: wait for the result, then assert that the
  job has no errors; every exception is logged and raised again. The configuration is
  only logged, and the result is not used by any caller.
\<close>

definition submit_bigquery_job :: "job \<Rightarrow> exn + unit" where
  "submit_bigquery_job j =
     (if result_raises j then Inl RemoteError
      else py_assert (case errors j of None \<Rightarrow> True | Some es \<Rightarrow> length es = 0))"

section \<open>The staged materialization procedure\<close>

definition temp_table_name :: "string \<Rightarrow> int \<Rightarrow> string" where
  "temp_table_name task milliseconds = task @ ''_'' @ str_int milliseconds"

definition temp_table_ref :: "pipeline \<Rightarrow> string \<Rightarrow> int \<Rightarrow> table_ref" where
  "temp_table_ref p task milliseconds =
     \<lparr>project = client_project p, dataset_id = dataset_name_temp p,
      table_id = temp_table_name task milliseconds\<rparr>"

definition dest_table_ref :: "pipeline \<Rightarrow> string \<Rightarrow> table_ref" where
  "dest_table_ref p task =
     \<lparr>project = destination_dataset_project_id p, dataset_id = dataset_name p,
      table_id = task\<rparr>"

definition description_path :: "pipeline \<Rightarrow> string \<Rightarrow> string" where
  "description_path p task =
     path_join (dags_folder p) (''resources/stages/enrich/descriptions/'' @ task @ ''.txt'')"

definition schema_path :: "pipeline \<Rightarrow> string \<Rightarrow> string" where
  "schema_path p task =
     path_join (dags_folder p) (''resources/stages/enrich/schemas/'' @ task @ ''.json'')"

definition sql_path :: "pipeline \<Rightarrow> string \<Rightarrow> string" where
  "sql_path p task =
     path_join (dags_folder p) (''resources/stages/enrich/sqls/'' @ task @ ''.sql'')"

text \<open>
  The tail both procedures share: copy the temporary table to the destination with
  \<^verbatim>\<open>WRITE_TRUNCATE\<close>, wait for the job, assert that it is done, delete the temporary
  table.
\<close>

definition copy_and_delete :: "pipeline \<Rightarrow> string \<Rightarrow> int \<Rightarrow> remote \<Rightarrow> unit run" where
  "copy_and_delete p task milliseconds w =
     and_then (send (CopyTable (temp_table_ref p task milliseconds) (dest_table_ref p task) ''US''
                       \<lparr>write_disposition = ''WRITE_TRUNCATE''\<rparr>)
                 (copy_table w)) (\<lambda>copy_job.
     and_then (evaluate (submit_bigquery_job copy_job)) (\<lambda>_.
     and_then (evaluate (py_assert (state copy_job = ''DONE''))) (\<lambda>_.
     send (DeleteTable (temp_table_ref p task milliseconds)) (delete_table w))))"

text \<open>
  \<^verbatim>\<open>enrich_table\<close>; \<open>milliseconds\<close> is the clock as the procedure reads it, \<open>w\<close> what
  the warehouse answers.
\<close>

definition enrich_table ::
  "pipeline \<Rightarrow> string \<Rightarrow> string option \<Rightarrow> int \<Rightarrow> remote \<Rightarrow> unit run" where
  "enrich_table p task time_partitioning_field milliseconds w =
     and_then (evaluate (read_file (file_system p) (description_path p task) None)) (\<lambda>text.
     and_then (evaluate (read_bigquery_schema_from_file (file_system p) (json_loads p)
                           (schema_path p task))) (\<lambda>fs.
     and_then (send (CreateTable
                       ((Table (temp_table_ref p task milliseconds))
                          \<lparr>table_description := Some text,
                           time_partitioning := time_partitioning_field,
                           table_schema := fs\<rparr>))
                 (create_table w)) (\<lambda>created_id.
     and_then (evaluate (py_assert (created_id = temp_table_name task milliseconds))) (\<lambda>_.
     and_then (evaluate (read_file (file_system p) (sql_path p task)
                           (Some (pipeline_environment p)))) (\<lambda>sql.
     and_then (send (Query sql ''US''
                       \<lparr>priority = ''INTERACTIVE'',
                        destination = temp_table_ref p task milliseconds\<rparr>)
                 (query w)) (\<lambda>query_job.
     and_then (evaluate (submit_bigquery_job query_job)) (\<lambda>_.
     and_then (evaluate (py_assert (state query_job = ''DONE''))) (\<lambda>_.
     copy_and_delete p task milliseconds w))))))))"

text \<open>
  \<^verbatim>\<open>enrich_view\<close>: the query of the view is the SQL file read with no environment and
  formatted with \<^verbatim>\<open>chain\<close>.
\<close>

definition enrich_view ::
  "pipeline \<Rightarrow> string \<Rightarrow> string option \<Rightarrow> int \<Rightarrow> remote \<Rightarrow> unit run" where
  "enrich_view p task time_partitioning_field milliseconds w =
     and_then (evaluate (read_file (file_system p) (sql_path p task) None)) (\<lambda>template.
     and_then (evaluate (str_format p template (chain p))) (\<lambda>sql.
     and_then (evaluate (read_file (file_system p) (description_path p task) None)) (\<lambda>text.
     and_then (send (CreateTable
                       ((Table (temp_table_ref p task milliseconds))
                          \<lparr>table_description := Some text,
                           time_partitioning := time_partitioning_field,
                           view_query := Some sql,
                           view_use_legacy_sql := Some False\<rparr>))
                 (create_table w)) (\<lambda>created_id.
     and_then (evaluate (py_assert (created_id = temp_table_name task milliseconds))) (\<lambda>_.
     copy_and_delete p task milliseconds w)))))"

text \<open>\<^verbatim>\<open>enrich_task\<close>, the callable of an enrichment operator.\<close>

definition enrich_task ::
  "pipeline \<Rightarrow> string \<Rightarrow> string option \<Rightarrow> bool \<Rightarrow> int \<Rightarrow> remote \<Rightarrow> unit run" where
  "enrich_task p task time_partitioning_field is_view milliseconds w =
     (if is_view then enrich_view p task time_partitioning_field milliseconds w
      else enrich_table p task time_partitioning_field milliseconds w)"

text \<open>
  A job answer under which the procedure goes on: the call returns a job, the wait for its
  result returns, \<^verbatim>\<open>job.errors\<close> is \<^verbatim>\<open>None\<close> or empty and the state is \<^verbatim>\<open>DONE\<close>.
\<close>

definition completed_without_errors :: "exn + job \<Rightarrow> bool" where
  "completed_without_errors answer =
     (case answer of
        Inl e \<Rightarrow> False
      | Inr j \<Rightarrow> \<not> result_raises j \<and> (case errors j of None \<Rightarrow> True | Some es \<Rightarrow> es = []) \<and>
                 state j = ''DONE'')"

text \<open>
  A job answer that reports errors: the call that starts the job raises, the wait for its
  result raises, or \<^verbatim>\<open>job.errors\<close> is a non-empty list.
\<close>

definition reports_errors :: "exn + job \<Rightarrow> bool" where
  "reports_errors answer =
     (case answer of
        Inl e \<Rightarrow> True
      | Inr j \<Rightarrow> result_raises j \<or> (case errors j of None \<Rightarrow> False | Some es \<Rightarrow> es \<noteq> []))"

text \<open>The copy request of the procedure.\<close>

definition copy_request :: "pipeline \<Rightarrow> string \<Rightarrow> int \<Rightarrow> request" where
  "copy_request p task milliseconds =
     CopyTable (temp_table_ref p task milliseconds) (dest_table_ref p task) ''US''
       \<lparr>write_disposition = ''WRITE_TRUNCATE''\<rparr>"

text \<open>The query request of the table procedure, for the SQL text it submits.\<close>

definition query_request :: "pipeline \<Rightarrow> string \<Rightarrow> int \<Rightarrow> string \<Rightarrow> request" where
  "query_request p task milliseconds text =
     Query text ''US''
       \<lparr>priority = ''INTERACTIVE'', destination = temp_table_ref p task milliseconds\<rparr>"

section \<open>The task graph\<close>

text \<open>
  The callable of a Python operator is a closure of \<^verbatim>\<open>build_load_dag\<close>; it is kept as the
  values it closes over: \<^verbatim>\<open>load_task\<close> over the task, the file format and
  \<^verbatim>\<open>allow_quoted_newlines\<close>, \<^verbatim>\<open>enrich_task\<close> over the task, the partitioning field and
  \<^verbatim>\<open>is_view\<close>. An operator is a sensor (timeout and poke interval in seconds, bucket,
  object), a Python operator (callable, execution timeout in minutes) or a query operator
  (SQL text, \<^verbatim>\<open>use_legacy_sql\<close>).
\<close>

datatype python_callable =
    LoadTask string string bool
  | EnrichTask string "string option" bool

datatype operator =
    GoogleCloudStorageObjectSensor nat nat string string
  | PythonOperator python_callable nat
  | BigQueryOperator string bool

record node =
  task_id :: string
  operator :: operator

text \<open>
  Of the DAG object the tasks, in the order of their creation, and the edges, each from
  the upstream task to the downstream task. The identifier, the schedule and the default
  arguments of the DAG (retries, notification addresses) are not part of the model.
\<close>

record dag =
  tasks :: "node list"
  edges :: "(string \<times> string) list"

definition empty_dag :: dag where
  "empty_dag = \<lparr>tasks = [], edges = []\<rparr>"

text \<open>An operator constructed with \<^verbatim>\<open>dag=dag\<close> becomes a task of the DAG.\<close>

definition add_task :: "node \<Rightarrow> dag \<Rightarrow> dag" where
  "add_task n d = d\<lparr>tasks := tasks d @ [n]\<rparr>"

text \<open>\<^verbatim>\<open>a >> b\<close>: \<open>b\<close> is downstream of \<open>a\<close>.\<close>

definition set_downstream :: "string \<Rightarrow> string \<Rightarrow> dag \<Rightarrow> dag" where
  "set_downstream a b d = d\<lparr>edges := edges d @ [(a, b)]\<rparr>"

text \<open>
  The loop \<^verbatim>\<open>for dependency in dependencies: dependency >> operator\<close>, which runs when
  \<^verbatim>\<open>dependencies\<close> is neither \<^verbatim>\<open>None\<close> nor empty.
\<close>

definition add_dependencies :: "string list option \<Rightarrow> string \<Rightarrow> dag \<Rightarrow> dag" where
  "add_dependencies dependencies t d =
     (case dependencies of
        None \<Rightarrow> d
      | Some ds \<Rightarrow> if length ds > 0 then fold (\<lambda>dependency. set_downstream dependency t) ds d
                   else d)"

text \<open>\<^verbatim>\<open>add_load_tasks\<close>: the sensor, the load operator, the edge between them.\<close>

definition add_load_tasks ::
  "pipeline \<Rightarrow> string \<Rightarrow> string \<Rightarrow> bool \<Rightarrow> dag \<Rightarrow> string \<times> dag" where
  "add_load_tasks p task file_format allow_quoted_newlines d =
     (let wait_sensor =
            \<lparr>task_id = ''wait_latest_'' @ task,
             operator = GoogleCloudStorageObjectSensor (60 * 60) 60 (output_bucket p)
               (''export/'' @ task @ ''/block_date='' @ ''{{ds}}'' @ ''/'' @ task @ ''.''
                  @ file_format)\<rparr>;
          load_operator =
            \<lparr>task_id = ''load_'' @ task,
             operator = PythonOperator (LoadTask task file_format allow_quoted_newlines) 30\<rparr>
      in (task_id load_operator,
          set_downstream (task_id wait_sensor) (task_id load_operator)
            (add_task load_operator (add_task wait_sensor d))))"

text \<open>\<^verbatim>\<open>add_enrich_tasks\<close>.\<close>

definition add_enrich_tasks ::
  "string \<Rightarrow> string option \<Rightarrow> bool \<Rightarrow> string list option \<Rightarrow> dag \<Rightarrow> string \<times> dag" where
  "add_enrich_tasks task time_partitioning_field is_view dependencies d =
     (let enrich_operator =
            \<lparr>task_id = ''enrich_'' @ task,
             operator = PythonOperator (EnrichTask task time_partitioning_field is_view) 60\<rparr>
      in (task_id enrich_operator,
          add_dependencies dependencies (task_id enrich_operator) (add_task enrich_operator d)))"

definition verify_sql_path :: "pipeline \<Rightarrow> string \<Rightarrow> string" where
  "verify_sql_path p task =
     path_join (dags_folder p) (''resources/stages/verify/sqls/'' @ task @ ''.sql'')"

text \<open>
  \<^verbatim>\<open>add_verify_tasks\<close>: the SQL file is read, with the environment, when the graph is
  built.
\<close>

definition add_verify_tasks ::
  "pipeline \<Rightarrow> string \<Rightarrow> string list option \<Rightarrow> dag \<Rightarrow> exn + string \<times> dag" where
  "add_verify_tasks p task dependencies d =
     (case read_file (file_system p) (verify_sql_path p task) (Some (pipeline_environment p)) of
        Inl e \<Rightarrow> Inl e
      | Inr sql \<Rightarrow>
          (let verify_task =
                 \<lparr>task_id = ''verify_'' @ task, operator = BigQueryOperator sql False\<rparr>
           in Inr (task_id verify_task,
                   add_dependencies dependencies (task_id verify_task)
                     (add_task verify_task d))))"

text \<open>Sequencing of steps that can raise.\<close>

definition on_success :: "exn + 'a \<Rightarrow> ('a \<Rightarrow> exn + 'b) \<Rightarrow> exn + 'b" where
  "on_success r f = (case r of Inl e \<Rightarrow> Inl e | Inr x \<Rightarrow> f x)"

text \<open>
  \<^verbatim>\<open>build_load_dag\<close>: the statements of its body from the first \<^verbatim>\<open>add_load_tasks\<close> on, in
  order. The task returned by \<^verbatim>\<open>add_verify_tasks\<close> is bound to a variable that is not
  read again.
\<close>

definition build_load_dag :: "pipeline \<Rightarrow> exn + dag" where
  "build_load_dag p =
     (let (load_blocks_task, d1) = add_load_tasks p ''blocks'' ''json'' False empty_dag;
          (load_transactions_task, d2) = add_load_tasks p ''transactions'' ''json'' False d1;
          (enrich_blocks_task, d3) =
             add_enrich_tasks ''blocks'' (Some ''timestamp_month'') False
               (Some [load_blocks_task]) d2;
          (enrich_transactions_task, d4) =
             add_enrich_tasks ''transactions'' (Some ''block_timestamp_month'') False
               (Some [load_transactions_task]) d3;
          (enrich_inputs_task, d5) =
             add_enrich_tasks ''inputs'' None True (Some [enrich_transactions_task]) d4;
          (enrich_outputs_task, d6) =
             add_enrich_tasks ''outputs'' None True (Some [enrich_transactions_task]) d5
      in
      on_success (add_verify_tasks p ''blocks_count'' (Some [enrich_blocks_task]) d6)
        (\<lambda>(v, d7).
      on_success (add_verify_tasks p ''blocks_have_latest'' (Some [enrich_blocks_task]) d7)
        (\<lambda>(v, d8).
      on_success (add_verify_tasks p ''transactions_count''
                    (Some [enrich_blocks_task, enrich_transactions_task]) d8)
        (\<lambda>(v, d9).
      on_success (add_verify_tasks p ''transactions_have_latest''
                    (Some [enrich_transactions_task]) d9)
        (\<lambda>(v, d10).
      on_success (if chain p \<noteq> ''dogecoin''
                  then on_success (add_verify_tasks p ''transactions_fees''
                                     (Some [enrich_transactions_task]) d10)
                         (\<lambda>(v, d). Inr d)
                  else Inr d10)
        (\<lambda>d11.
      on_success (add_verify_tasks p ''coinbase_transactions_count''
                    (Some [enrich_blocks_task, enrich_transactions_task]) d11)
        (\<lambda>(v, d12).
      on_success (add_verify_tasks p ''transaction_inputs_count''
                    (Some [enrich_transactions_task]) d12)
        (\<lambda>(v, d13).
      on_success (add_verify_tasks p ''transaction_outputs_count''
                    (Some [enrich_transactions_task]) d13)
        (\<lambda>(v, d14).
      if chain p \<noteq> ''zcash''
      then on_success (add_verify_tasks p ''transaction_inputs_count_empty''
                         (Some [enrich_transactions_task]) d14)
             (\<lambda>(v, d15).
           on_success (add_verify_tasks p ''transaction_outputs_count_empty''
                         (Some [enrich_transactions_task]) d15)
             (\<lambda>(v, d16). Inr d16))
      else Inr d14)))))))))"

text \<open>The identifiers of the tasks, and the declared dependencies of a task.\<close>

definition task_ids :: "dag \<Rightarrow> string list" where
  "task_ids d = map task_id (tasks d)"

definition upstream :: "dag \<Rightarrow> string \<Rightarrow> string list" where
  "upstream d t = map fst (filter (\<lambda>e. snd e = t) (edges d))"

text \<open>A path of the graph: a list of tasks, each an upstream task of the next.\<close>

fun is_path :: "dag \<Rightarrow> string list \<Rightarrow> bool" where
  "is_path d [] = True"
| "is_path d [a] = True"
| "is_path d (a # b # rest) = ((a, b) \<in> set (edges d) \<and> is_path d (b # rest))"

text \<open>
  Every query operator of the graph carries the text of its verification SQL file with the
  environment substituted.
\<close>

definition verify_sql_read :: "pipeline \<Rightarrow> dag \<Rightarrow> bool" where
  "verify_sql_read p d \<longleftrightarrow>
     (\<forall>n \<in> set (tasks d). \<forall>text legacy. operator n = BigQueryOperator text legacy \<longrightarrow>
        (\<exists>task. task_id n = ''verify_'' @ task \<and>
           read_file (file_system p) (verify_sql_path p task) (Some (pipeline_environment p))
             = Inr text))"

section \<open>An example pipeline\<close>

text \<open>
  \<^verbatim>\<open>s.format(chain=c)\<close> for the example, on templates whose replacement fields are
  plain names: two equal braces in a row stand for one, the field \<^verbatim>\<open>{chain}\<close> stands for
  \<open>c\<close>, and a single closing brace, an opening brace with no closing one behind it and a
  field of any other plain name raise (\<open>FormatError\<close>). A replacement field with a
  conversion, a format specification, an attribute, an index or a nested field is not
  covered (\<open>FormatNotModelled\<close>); the example applies the function to no such template.
\<close>

function py_format :: "string \<Rightarrow> string \<Rightarrow> exn + string" where
  "py_format [] val = Inr []"
| "py_format (c # cs) val =
     (if c = CHR ''{'' \<and> cs \<noteq> [] \<and> hd cs = CHR ''{'' then
        (case py_format (tl cs) val of Inl e \<Rightarrow> Inl e | Inr r \<Rightarrow> Inr (CHR ''{'' # r))
      else if c = CHR ''}'' \<and> cs \<noteq> [] \<and> hd cs = CHR ''}'' then
        (case py_format (tl cs) val of Inl e \<Rightarrow> Inl e | Inr r \<Rightarrow> Inr (CHR ''}'' # r))
      else if c = CHR ''}'' then Inl FormatError
      else if c = CHR ''{'' then
        (let field = takeWhile (\<lambda>x. x \<noteq> CHR ''}'') cs;
             behind = dropWhile (\<lambda>x. x \<noteq> CHR ''}'') cs
         in if behind = [] then Inl FormatError
            else if \<exists>x \<in> set field. x \<in> set ''{!:.['' then Inl FormatNotModelled
            else if field = ''chain'' then
              (case py_format (tl behind) val of Inl e \<Rightarrow> Inl e | Inr r \<Rightarrow> Inr (val @ r))
            else Inl FormatError)
      else
        (case py_format cs val of Inl e \<Rightarrow> Inl e | Inr r \<Rightarrow> Inr (c # r)))"
  by pat_completeness auto
termination
proof (relation "measure (\<lambda>(s, val). length s)")
  fix c :: char and cs val :: string and x xa
  assume "xa = dropWhile (\<lambda>x. x \<noteq> CHR ''}'') cs" "xa \<noteq> []"
  then have "length (tl xa) < length xa" "length xa \<le> length cs"
    by (simp_all add: length_dropWhile_le)
  then show "((tl xa, val), c # cs, val) \<in> measure (\<lambda>(s, val). length s)"
    by simp
qed auto

text \<open>
  A pipeline for bitcoin. Under its DAGs folder every \<^verbatim>\<open>.json\<close> file holds the empty
  schema \<^verbatim>\<open>[]\<close>, every \<^verbatim>\<open>.txt\<close> file a line of description and every \<^verbatim>\<open>.sql\<close> file
  the line \<^verbatim>\<open>{{dataset_name}}.transactions\<close>. Its \<^verbatim>\<open>json.loads\<close> parses the text
  \<^verbatim>\<open>[]\<close> to the empty list, the only text it is given in the example.
\<close>

definition example_files :: "string \<rightharpoonup> string" where
  "example_files path =
     (if suffix ''.json'' path then Some ''[]''
      else if suffix ''.txt'' path then Some ''Enriched table''
      else if suffix ''.sql'' path then Some ''{{dataset_name}}.transactions''
      else None)"

definition example_pipeline :: pipeline where
  "example_pipeline =
     \<lparr>output_bucket = ''bucket'', destination_dataset_project_id = ''warehouse'',
      chain = ''bitcoin'', DAGS_FOLDER = Some ''/dags'',
      file_system = example_files,
      json_loads = (\<lambda>text. if text = ''[]'' then Inr (JList []) else Inl ValueError),
      str_format = py_format, client_project = ''etl''\<rparr>"

text \<open>Answers of the warehouse: jobs that succeed or fail, calls that return or raise.\<close>

definition done_job :: job where
  "done_job = \<lparr>result_raises = False, errors = None, state = ''DONE''\<rparr>"

definition failed_job :: job where
  "failed_job = \<lparr>result_raises = False, errors = Some [''quota exceeded''], state = ''DONE''\<rparr>"

definition all_succeed :: "string \<Rightarrow> remote" where
  "all_succeed created_id =
     \<lparr>create_table = Inr created_id, query = Inr done_job, copy_table = Inr done_job,
      delete_table = Inr ()\<rparr>"

definition create_fails :: remote where
  "create_fails =
     \<lparr>create_table = Inl RemoteError, query = Inr done_job, copy_table = Inr done_job,
      delete_table = Inr ()\<rparr>"

definition copy_fails :: "string \<Rightarrow> remote" where
  "copy_fails created_id =
     \<lparr>create_table = Inr created_id, query = Inr done_job, copy_table = Inr failed_job,
      delete_table = Inr ()\<rparr>"


definition query_fails :: "string \<Rightarrow> remote" where
  "query_fails created_id =
     \<lparr>create_table = Inr created_id, query = Inr failed_job, copy_table = Inr done_job,
      delete_table = Inr ()\<rparr>"
section \<open>Properties of the schema loader\<close>

lemma schema_of_field_parsed:
  "schema_of_field f = Inr s \<Longrightarrow> parsed_from f s"
  by (cases f)
     (auto simp: parsed_from_def record_with_fields_def split: sum.splits if_splits)

lemma for_each_field_parsed:
  "for_each_field xs = Inr result \<Longrightarrow> list_all2 parsed_from xs result"
proof (induction xs arbitrary: result)
  case Nil
  then show ?case by simp
next
  case (Cons f rest)
  then show ?case
    by (auto split: sum.splits dest: schema_of_field_parsed)
qed

lemma typed_returns:
  "typed_schema j \<Longrightarrow> \<exists>r. read_bigquery_schema_from_json_recursive j = Inr r"
  "list_all typed_field xs \<Longrightarrow> \<exists>r. for_each_field xs = Inr r"
  "typed_field f \<Longrightarrow> \<exists>s. schema_of_field f = Inr s"
proof (induction j and xs and f
    rule: read_bigquery_schema_from_json_recursive_for_each_field_schema_of_field.induct)
  case (7 field)
  from "7.prems" obtain t where t: "dict_get field ''type'' JNone = JStr t"
    by (auto split: json.splits)
  show ?case
  proof (cases "map lower_char t = ''record'' \<and> truthy (dict_get field ''fields'' JNone)")
    case True
    with "7.prems" t have "typed_schema (dict_get field ''fields'' JNone)"
      by simp
    with "7.IH" [of "map lower_char t"] t True
    obtain r where
      "read_bigquery_schema_from_json_recursive (dict_get field ''fields'' JNone) = Inr r"
      by auto
    with t True show ?thesis by simp
  next
    case False
    with t show ?thesis by auto
  qed
qed (auto split: sum.splits)

lemma returns_typed:
  "read_bigquery_schema_from_json_recursive j = Inr r \<Longrightarrow> j = JList ys \<Longrightarrow> typed_schema j"
  "for_each_field xs = Inr r' \<Longrightarrow> list_all typed_field xs"
  "schema_of_field f = Inr s \<Longrightarrow> typed_field f"
proof (induction j and xs and f arbitrary: r ys and r' and s
    rule: read_bigquery_schema_from_json_recursive_for_each_field_schema_of_field.induct)
  case (7 field)
  from "7.prems" obtain t where t: "dict_get field ''type'' JNone = JStr t"
    by (cases "dict_get field ''type'' JNone") (auto split: sum.splits)
  show ?case
  proof (cases "map lower_char t = ''record'' \<and> truthy (dict_get field ''fields'' JNone)")
    case True
    with "7.prems" t obtain children where
      c: "read_bigquery_schema_from_json_recursive (dict_get field ''fields'' JNone) = Inr children"
      by (auto split: sum.splits)
    from True c obtain zs where zs: "dict_get field ''fields'' JNone = JList zs"
      by (cases "dict_get field ''fields'' JNone") (auto simp: neq_Nil_conv)
    from "7.IH" [of "map lower_char t", OF _ _ c zs] t True
    have "typed_schema (dict_get field ''fields'' JNone)"
      by simp
    with t True show ?thesis by simp
  next
    case False
    with t show ?thesis by auto
  qed
qed (auto split: sum.splits)

lemma for_each_field_typed_prefix:
  "list_all typed_field before \<Longrightarrow>
   for_each_field (before @ f # rest) = Inl e \<longleftrightarrow>
     schema_of_field f = Inl e \<or>
     (\<exists>s. schema_of_field f = Inr s) \<and> for_each_field rest = Inl e"
proof (induction before)
  case Nil
  then show ?case by (auto split: sum.splits)
next
  case (Cons b before)
  from Cons.prems obtain s where "schema_of_field b = Inr s"
    using typed_returns(3) [of b] by auto
  with Cons show ?case by (auto split: sum.splits)
qed

lemma missing_mode_defaults_nullable:
  "map_of field ''mode'' = None \<Longrightarrow> schema_of_field (JDict field) = Inr s \<Longrightarrow>
   mode s = JStr ''NULLABLE''"
  by (auto simp: dict_get_def split: sum.splits if_splits)

text \<open>
  C3. The claim: a field object with no \<^verbatim>\<open>type\<close> key is parsed with type STRING rather
  than failing. The code: the condition of the \<^verbatim>\<open>if\<close> calls \<^verbatim>\<open>lower\<close> on
  \<^verbatim>\<open>field.get('type')\<close>, which is \<^verbatim>\<open>None\<close> for such a field, so the loader raises
  AttributeError before the default \<^verbatim>\<open>'STRING'\<close> of the constructor call is read,
  whatever else the field holds and whatever follows it in the list.
\<close>

theorem missing_type_raises:
  "map_of field ''type'' = None \<Longrightarrow>
   read_bigquery_schema_from_json_recursive (JList (JDict field # rest)) = Inl AttributeError"
  by (simp add: dict_get_def)

theorem missing_type_raises_witness:
  "map_of [(''name'', JStr ''hash''), (''mode'', JStr ''REQUIRED'')] ''type'' = None \<and>
   read_bigquery_schema_from_json_recursive
     (JList [JDict [(''name'', JStr ''hash''), (''mode'', JStr ''REQUIRED'')]])
   = Inl AttributeError"
  using missing_type_raises [of "[(''name'', JStr ''hash''), (''mode'', JStr ''REQUIRED'')]" "[]"]
  by simp

text \<open>
  C7. The claim: for every schema description the loader returns one schema field per
  field object, in order, at every depth. The code: it returns for a list exactly when
  every field object it visits is a dict with a string under \<^verbatim>\<open>type\<close>; a field object
  with no \<^verbatim>\<open>type\<close> key, at any position of the list, makes the call raise (with
  AttributeError when the field objects before it are well typed), so no field is
  returned for any element. This is the defect of C3: \<^verbatim>\<open>field.get('type').lower()\<close> is
  evaluated before the default \<^verbatim>\<open>'STRING'\<close> is read. Whenever the loader does return, it
  returns one schema field per element, the field at each position read from the element
  at that position (name, type, mode, description), its children being the recursive
  parse of the nested list when the type is RECORD and that list is non-empty, and empty
  otherwise.
\<close>

theorem schema_loader_structure_only_for_typed_fields:
  "(map_of field ''type'' = None \<longrightarrow>
      (\<exists>e. read_bigquery_schema_from_json_recursive (JList (before @ JDict field # rest))
             = Inl e) \<and>
      (list_all typed_field before \<longrightarrow>
         read_bigquery_schema_from_json_recursive (JList (before @ JDict field # rest))
         = Inl AttributeError)) \<and>
   ((\<exists>result. read_bigquery_schema_from_json_recursive (JList xs) = Inr result)
      \<longleftrightarrow> typed_schema (JList xs)) \<and>
   (\<forall>result. read_bigquery_schema_from_json_recursive (JList xs) = Inr result \<longrightarrow>
      length result = length xs \<and>
      (\<forall>i < length xs. parsed_from (xs ! i) (result ! i)))"
proof (intro conjI impI)
  assume a: "map_of field ''type'' = None"
  then have "\<not> typed_schema (JList (before @ JDict field # rest))"
    by (simp add: dict_get_def)
  then have "\<forall>r. read_bigquery_schema_from_json_recursive
                   (JList (before @ JDict field # rest)) \<noteq> Inr r"
    using returns_typed(1) by blast
  then show "\<exists>e. read_bigquery_schema_from_json_recursive
                   (JList (before @ JDict field # rest)) = Inl e"
    by (cases "read_bigquery_schema_from_json_recursive
                 (JList (before @ JDict field # rest))") auto
  assume "list_all typed_field before"
  moreover from a have "schema_of_field (JDict field) = Inl AttributeError"
    by (simp add: dict_get_def)
  ultimately show "read_bigquery_schema_from_json_recursive
      (JList (before @ JDict field # rest)) = Inl AttributeError"
    by (simp add: for_each_field_typed_prefix)
next
  show "(\<exists>result. read_bigquery_schema_from_json_recursive (JList xs) = Inr result)
      \<longleftrightarrow> typed_schema (JList xs)"
    using typed_returns(1) returns_typed(1) by blast
next
  show "\<forall>result. read_bigquery_schema_from_json_recursive (JList xs) = Inr result \<longrightarrow>
      length result = length xs \<and>
      (\<forall>i < length xs. parsed_from (xs ! i) (result ! i))"
  proof (intro allI impI)
    fix result
    assume "read_bigquery_schema_from_json_recursive (JList xs) = Inr result"
    then have "list_all2 parsed_from xs result"
      by (simp add: for_each_field_parsed)
    then show "length result = length xs \<and>
        (\<forall>i < length xs. parsed_from (xs ! i) (result ! i))"
      by (auto simp: list_all2_conv_all_nth)
  qed
qed

theorem schema_loader_structure_only_for_typed_fields_witness:
  "map_of [(''name'', JStr ''size''), (''mode'', JStr ''REQUIRED'')] ''type'' = None \<and>
   list_all typed_field [JDict [(''name'', JStr ''hash''), (''type'', JStr ''STRING'')]] \<and>
   read_bigquery_schema_from_json_recursive
     (JList [JDict [(''name'', JStr ''hash''), (''type'', JStr ''STRING'')],
             JDict [(''name'', JStr ''size''), (''mode'', JStr ''REQUIRED'')],
             JDict [(''name'', JStr ''number''), (''type'', JStr ''INTEGER'')]])
   = Inl AttributeError \<and>
   typed_schema
     (JList [JDict [(''name'', JStr ''inputs''), (''type'', JStr ''RECORD''),
                    (''mode'', JStr ''REPEATED''),
                    (''fields'', JList [JDict [(''name'', JStr ''index''),
                                               (''type'', JStr ''INTEGER'')]])],
             JDict [(''name'', JStr ''hash''), (''type'', JStr ''STRING'')]]) \<and>
   read_bigquery_schema_from_json_recursive
     (JList [JDict [(''name'', JStr ''inputs''), (''type'', JStr ''RECORD''),
                    (''mode'', JStr ''REPEATED''),
                    (''fields'', JList [JDict [(''name'', JStr ''index''),
                                               (''type'', JStr ''INTEGER'')]])],
             JDict [(''name'', JStr ''hash''), (''type'', JStr ''STRING'')]])
   = Inr [SchemaField (JStr ''inputs'') (JStr ''RECORD'') (JStr ''REPEATED'') JNone
            [SchemaField (JStr ''index'') (JStr ''INTEGER'') (JStr ''NULLABLE'') JNone []],
          SchemaField (JStr ''hash'') (JStr ''STRING'') (JStr ''NULLABLE'') JNone []] \<and>
   parsed_from
     (JDict [(''name'', JStr ''inputs''), (''type'', JStr ''RECORD''),
             (''mode'', JStr ''REPEATED''),
             (''fields'', JList [JDict [(''name'', JStr ''index''),
                                        (''type'', JStr ''INTEGER'')]])])
     (SchemaField (JStr ''inputs'') (JStr ''RECORD'') (JStr ''REPEATED'') JNone
        [SchemaField (JStr ''index'') (JStr ''INTEGER'') (JStr ''NULLABLE'') JNone []]) \<and>
   parsed_from
     (JDict [(''name'', JStr ''hash''), (''type'', JStr ''STRING'')])
     (SchemaField (JStr ''hash'') (JStr ''STRING'') (JStr ''NULLABLE'') JNone [])"
  using schema_loader_structure_only_for_typed_fields
    [of "[(''name'', JStr ''size''), (''mode'', JStr ''REQUIRED'')]"
        "[JDict [(''name'', JStr ''hash''), (''type'', JStr ''STRING'')]]"
        "[JDict [(''name'', JStr ''number''), (''type'', JStr ''INTEGER'')]]"
        "[JDict [(''name'', JStr ''inputs''), (''type'', JStr ''RECORD''),
                 (''mode'', JStr ''REPEATED''),
                 (''fields'', JList [JDict [(''name'', JStr ''index''),
                                            (''type'', JStr ''INTEGER'')]])],
          JDict [(''name'', JStr ''hash''), (''type'', JStr ''STRING'')]]"]
  by (simp add: dict_get_def lower_char_def parsed_from_def record_with_fields_def)



section \<open>Properties of the parameterized query loader\<close>


lemma token_Cons: "token k = CHR ''{'' # CHR ''{'' # k @ ''}}''"
  by (simp add: token_def)

lemma replace_skip_char:
  "CHR ''{'' \<noteq> c \<Longrightarrow> replace (c # cs) (token k) v = c # replace cs (token k) v"
  by (auto simp: token_Cons)

lemma replace_skip_brace:
  "CHR ''{'' \<noteq> d \<Longrightarrow>
   replace (CHR ''{'' # d # cs) (token k) v = CHR ''{'' # replace (d # cs) (token k) v"
  by (auto simp: token_Cons)

lemma replace_skip_text:
  "plain_text s \<Longrightarrow> replace (s @ rest) (token k) v = s @ replace rest (token k) v"
proof (induction s rule: plain_text.induct)
  case 1
  then show ?case by simp
next
  case (2 c)
  then show ?case by (simp add: replace_skip_char)
next
  case (3 c d s)
  then show ?case
    by (cases "c = CHR ''{''") (auto simp: replace_skip_char replace_skip_brace)
qed

lemma plain_text_no_brace: "CHR ''{'' \<notin> set s \<Longrightarrow> plain_text s"
  by (induction s rule: plain_text.induct) auto

lemma replace_at_token:
  "replace (token k @ rest) (token k) v = v @ replace rest (token k) v"
  by (simp add: token_Cons)

lemma key_prefix_eq:
  "CHR ''}'' \<notin> set k0 \<Longrightarrow> CHR ''}'' \<notin> set k \<Longrightarrow>
   prefix (k0 @ ''}}'') (k @ ''}}'' @ rest) \<Longrightarrow> k0 = k"
proof (induction k0 arbitrary: k)
  case Nil
  then show ?case by (cases k) auto
next
  case (Cons c k0)
  then show ?case by (cases k) auto
qed

lemma replace_other_token:
  assumes "CHR ''}'' \<notin> set k0" "CHR ''{'' \<notin> set k" "CHR ''}'' \<notin> set k" "k \<noteq> k0"
  shows "replace (token k @ rest) (token k0) v = token k @ replace rest (token k0) v"
proof -
  have no: "\<not> prefix (token k0) (token k @ rest)"
    using assms key_prefix_eq [of k0 k rest] by (auto simp: token_Cons)
  have no2: "\<not> prefix (token k0) (CHR ''{'' # k @ ''}}'' @ rest)"
    using assms(2) by (cases k) (auto simp: token_Cons)
  have "replace (token k @ rest) (token k0) v
        = CHR ''{'' # replace (CHR ''{'' # (k @ ''}}'') @ rest) (token k0) v"
    using no by (simp add: token_Cons)
  also have "\<dots> = CHR ''{'' # CHR ''{'' # replace ((k @ ''}}'') @ rest) (token k0) v"
    using no2 by (simp add: token_Cons)
  also have "\<dots> = CHR ''{'' # CHR ''{'' # (k @ ''}}'') @ replace rest (token k0) v"
    using assms(2) by (subst replace_skip_text) (auto intro: plain_text_no_brace)
  finally show ?thesis by (simp add: token_Cons)
qed

lemma replace_render:
  "list_all plain_segment segs \<Longrightarrow> CHR ''}'' \<notin> set k0 \<Longrightarrow>
   replace (render segs) (token k0) v = render (map (fill1 k0 v) segs)"
proof (induction segs)
  case Nil
  then show ?case by (simp add: token_Cons)
next
  case (Cons seg segs)
  then show ?case
    by (cases seg) (auto simp: replace_skip_text replace_at_token replace_other_token)
qed

lemma plain_fill1:
  "list_all plain_segment segs \<Longrightarrow> plain_text v \<Longrightarrow>
   list_all plain_segment (map (fill1 k0 v) segs)"
  by (induction segs) (auto elim: plain_segment.elims)

lemma fill_Cons: "fill ((k, v) # environment) seg = fill environment (fill1 k v seg)"
  by (cases seg) auto

lemma substitute_render:
  "list_all plain_segment segs \<Longrightarrow> plain_environment environment \<Longrightarrow>
   substitute environment (render segs) = filled environment segs"
proof (induction environment arbitrary: segs)
  case Nil
  have "fill [] seg = seg" for seg
    by (cases seg) auto
  then have "map (fill []) segs = segs"
    by (simp add: map_idI)
  then show ?case by (simp add: substitute_def filled_def)
next
  case (Cons kv environment)
  obtain k v where kv: "kv = (k, v)" by (cases kv)
  from Cons.prems kv have k: "CHR ''}'' \<notin> set k" and v: "plain_text v"
    and env: "plain_environment environment"
    by (auto simp: plain_environment_def)
  have "substitute (kv # environment) (render segs)
        = substitute environment (replace (render segs) (token k) v)"
    by (simp add: substitute_def kv)
  also have "\<dots> = substitute environment (render (map (fill1 k v) segs))"
    using Cons.prems(1) k by (simp add: replace_render)
  also have "\<dots> = filled environment (map (fill1 k v) segs)"
    using Cons.IH [OF plain_fill1 [OF Cons.prems(1) v] env] .
  also have "\<dots> = filled (kv # environment) segs"
  proof -
    have "fill environment \<circ> fill1 k v = fill ((k, v) # environment)"
      by (rule ext) (simp add: fill_Cons)
    then show ?thesis by (simp add: filled_def kv)
  qed
  finally show ?case .
qed


text \<open>
  One replacement on any text: a text without an occurrence of the token is returned as it
  is, and the first occurrence is replaced, the text before it kept and the text behind it
  treated in the same way.
\<close>

lemma replace_no_occurrence:
  "\<not> sublist (token k) s \<Longrightarrow> replace s (token k) v = s"
proof (induction s)
  case Nil
  then show ?case by (simp add: token_Cons)
next
  case (Cons c s)
  from Cons.prems have "\<not> prefix (token k) (c # s)" "\<not> sublist (token k) s"
    by (auto simp: sublist_Cons_right)
  with Cons.IH show ?case by (auto simp: token_Cons)
qed

lemma prefix_of_append:
  "prefix xs (ys @ zs) \<Longrightarrow> length xs \<le> length ys \<Longrightarrow> prefix xs ys"
  by (auto simp: prefix_append)

lemma replace_no_prefix:
  "old \<noteq> [] \<Longrightarrow> \<not> prefix old (c # cs) \<Longrightarrow> replace (c # cs) old new = c # replace cs old new"
  by (cases old) auto

lemma replace_first_occurrence:
  "\<not> sublist (token k) (before @ butlast (token k)) \<Longrightarrow>
   replace (before @ token k @ behind) (token k) v = before @ v @ replace behind (token k) v"
proof (induction before)
  case Nil
  then show ?case by (simp add: replace_at_token)
next
  case (Cons c before)
  have "token k \<noteq> []"
    by (simp add: token_Cons)
  then have tok: "token k = butlast (token k) @ [last (token k)]"
    by simp
  have "\<not> prefix (token k) ((c # before) @ token k @ behind)"
  proof
    assume p: "prefix (token k) ((c # before) @ token k @ behind)"
    have len: "length (token k) \<le> length ((c # before) @ butlast (token k))"
      by simp
    from p tok have
      "prefix (token k) (((c # before) @ butlast (token k)) @ last (token k) # behind)"
      by (metis append.assoc append_Cons append_Nil)
    with len have "prefix (token k) ((c # before) @ butlast (token k))"
      by (rule prefix_of_append [rotated])
    then have "sublist (token k) ((c # before) @ butlast (token k))"
      by (rule prefix_imp_sublist)
    with Cons.prems show False by simp
  qed
  moreover from Cons.prems have "\<not> sublist (token k) (before @ butlast (token k))"
    by (auto simp: sublist_Cons_right)
  ultimately show ?case
    using Cons.IH \<open>token k \<noteq> []\<close> by (simp add: replace_no_prefix)
qed

text \<open>
  The order in which a dict yields its items does not matter when braces only delimit
  placeholders.
\<close>

lemma substitute_order_irrelevant:
  assumes "list_all plain_segment segs"
    and "plain_environment e1" "plain_environment e2"
    and "distinct (map fst e1)" "distinct (map fst e2)" "set e1 = set e2"
  shows "substitute e1 (render segs) = substitute e2 (render segs)"
proof -
  from assms(4-6) have "map_of e1 = map_of e2"
    by (simp add: map_of_inject_set)
  then have "fill e1 = fill e2"
    by (intro ext) (rename_tac seg, case_tac seg, simp_all)
  then show ?thesis
    using assms(1-3) by (simp add: substitute_render filled_def)
qed

text \<open>
  C6. The claim as stated, for every environment and every template: each occurrence of
  each key's token is replaced by that key's value and all other text is unchanged. The
  code substitutes one key after the other, each on the result of the one before, so a
  value that holds a token of another key is substituted again. For the template
  \<^verbatim>\<open>{{a}} {{b}}\<close> and the environment that maps \<^verbatim>\<open>a\<close> to \<^verbatim>\<open>{{b}}\<close> and \<^verbatim>\<open>b\<close> to
  \<^verbatim>\<open>{{a}}\<close> the claim gives \<^verbatim>\<open>{{b}} {{a}}\<close>; the code gives another text in either
  order of the keys.
\<close>

theorem read_file_substitution_counterexample:
  "render [Placeholder ''a'', Text '' '', Placeholder ''b''] = ''{{a}} {{b}}'' \<and>
   filled [(''a'', ''{{b}}''), (''b'', ''{{a}}'')]
     [Placeholder ''a'', Text '' '', Placeholder ''b''] = ''{{b}} {{a}}'' \<and>
   read_file [''q.sql'' \<mapsto> ''{{a}} {{b}}''] ''q.sql''
     (Some [(''a'', ''{{b}}''), (''b'', ''{{a}}'')]) = Inr ''{{a}} {{a}}'' \<and>
   read_file [''q.sql'' \<mapsto> ''{{a}} {{b}}''] ''q.sql''
     (Some [(''b'', ''{{a}}''), (''a'', ''{{b}}'')]) = Inr ''{{b}} {{b}}'' \<and>
   read_file [''q.sql'' \<mapsto> ''{{a}} {{b}}''] ''q.sql''
     (Some [(''a'', ''{{b}}''), (''b'', ''{{a}}'')])
   \<noteq> Inr (filled [(''a'', ''{{b}}''), (''b'', ''{{a}}'')]
            [Placeholder ''a'', Text '' '', Placeholder ''b''])"
  by (simp add: read_file_def substitute_def filled_def token_def)

text \<open>
  C6, amended. With no environment or an empty one the loader returns the content of the
  file unchanged. In general it substitutes the keys one after the other, in the order in
  which the environment yields them, each in the result of the substitutions before. One
  substitution replaces the occurrences of that key's token from the left: a text without
  an occurrence stays as it is; otherwise the text before the first occurrence is kept,
  the occurrence becomes the value, and the text behind it is treated in the same way.
  When two opening braces in a row only open a placeholder (the literal texts of the
  template and the values are plain, the placeholder names hold no brace and the keys no
  closing brace), the result is the template with every placeholder of a key of the
  environment replaced by that key's value and all other text, the placeholders of other
  names included, unchanged.
\<close>

theorem read_file_substitution:
  "(files filepath = Some content \<longrightarrow>
      read_file files filepath None = Inr content \<and>
      read_file files filepath (Some []) = Inr content \<and>
      read_file files filepath (Some ((key, val) # environment))
        = read_file (files(filepath \<mapsto> replace content (token key) val)) filepath
            (Some environment)) \<and>
   (\<not> sublist (token key) content \<longrightarrow> replace content (token key) val = content) \<and>
   (\<not> sublist (token key) (before @ butlast (token key)) \<longrightarrow>
      replace (before @ token key @ behind) (token key) val
        = before @ val @ replace behind (token key) val) \<and>
   (files filepath = Some (render segs) \<longrightarrow> list_all plain_segment segs \<longrightarrow>
      plain_environment environment \<longrightarrow>
      read_file files filepath (Some environment) = Inr (filled environment segs))"
proof (intro conjI impI)
  assume "files filepath = Some content"
  then show "read_file files filepath None = Inr content"
    and "read_file files filepath (Some []) = Inr content"
    and "read_file files filepath (Some ((key, val) # environment))
        = read_file (files(filepath \<mapsto> replace content (token key) val)) filepath
            (Some environment)"
    by (simp_all add: read_file_def substitute_def)
next
  assume "\<not> sublist (token key) content"
  then show "replace content (token key) val = content"
    by (rule replace_no_occurrence)
next
  assume "\<not> sublist (token key) (before @ butlast (token key))"
  then show "replace (before @ token key @ behind) (token key) val
        = before @ val @ replace behind (token key) val"
    by (rule replace_first_occurrence)
next
  assume "files filepath = Some (render segs)" "list_all plain_segment segs"
    "plain_environment environment"
  then show "read_file files filepath (Some environment) = Inr (filled environment segs)"
    by (simp add: read_file_def substitute_render)
qed

theorem read_file_substitution_witness:
  "[''blocks.sql'' \<mapsto> ''SELECT {{x}} FROM {{dataset_name_raw}}.blocks WHERE h LIKE [0-9a-f]{64}'']
     ''blocks.sql''
   = Some (render [Text ''SELECT '', Placeholder ''x'', Text '' FROM '',
                   Placeholder ''dataset_name_raw'',
                   Text ''.blocks WHERE h LIKE [0-9a-f]{64}'']) \<and>
   list_all plain_segment
     [Text ''SELECT '', Placeholder ''x'', Text '' FROM '', Placeholder ''dataset_name_raw'',
      Text ''.blocks WHERE h LIKE [0-9a-f]{64}''] \<and>
   plain_environment
     [(''dataset_name'', ''bitcoin_{blockchain}''),
      (''dataset_name_raw'', ''bitcoin_blockchain_raw'')] \<and>
   read_file
     [''blocks.sql'' \<mapsto> ''SELECT {{x}} FROM {{dataset_name_raw}}.blocks WHERE h LIKE [0-9a-f]{64}'']
     ''blocks.sql''
     (Some [(''dataset_name'', ''bitcoin_{blockchain}''),
            (''dataset_name_raw'', ''bitcoin_blockchain_raw'')])
   = Inr ''SELECT {{x}} FROM bitcoin_blockchain_raw.blocks WHERE h LIKE [0-9a-f]{64}'' \<and>
   read_file
     [''blocks.sql'' \<mapsto> ''SELECT {{x}} FROM {{dataset_name_raw}}.blocks WHERE h LIKE [0-9a-f]{64}'']
     ''blocks.sql'' None
   = Inr ''SELECT {{x}} FROM {{dataset_name_raw}}.blocks WHERE h LIKE [0-9a-f]{64}'' \<and>
   \<not> sublist (token ''a'')
       ''SELECT {{x}} FROM {{dataset_name_raw}}.blocks WHERE h LIKE [0-9a-f]{64}'' \<and>
   replace ''SELECT {{x}} FROM {{dataset_name_raw}}.blocks WHERE h LIKE [0-9a-f]{64}''
     (token ''a'') ''{{a}}''
   = ''SELECT {{x}} FROM {{dataset_name_raw}}.blocks WHERE h LIKE [0-9a-f]{64}'' \<and>
   \<not> sublist (token ''a'') (''{a} '' @ butlast (token ''a'')) \<and>
   replace (''{a} '' @ token ''a'' @ '' {{a}}'') (token ''a'') ''{{a}}'' = ''{a} {{a}} {{a}}''"
proof -
  note first = read_file_substitution
    [of "[''blocks.sql'' \<mapsto> ''SELECT {{x}} FROM {{dataset_name_raw}}.blocks WHERE h LIKE [0-9a-f]{64}'']"
        "''blocks.sql''"
        "''SELECT {{x}} FROM {{dataset_name_raw}}.blocks WHERE h LIKE [0-9a-f]{64}''"
        "''a''" "''{{a}}''"
        "[(''dataset_name'', ''bitcoin_{blockchain}''),
          (''dataset_name_raw'', ''bitcoin_blockchain_raw'')]"
        "''{a} ''" "'' {{a}}''"
        "[Text ''SELECT '', Placeholder ''x'', Text '' FROM '',
          Placeholder ''dataset_name_raw'', Text ''.blocks WHERE h LIKE [0-9a-f]{64}'']"]
  have a: "\<not> sublist (token ''a'')
       ''SELECT {{x}} FROM {{dataset_name_raw}}.blocks WHERE h LIKE [0-9a-f]{64}''"
    and b: "\<not> sublist (token ''a'') (''{a} '' @ butlast (token ''a''))"
    by (simp_all add: token_def sublist_code)
  have c: "replace '' {{a}}'' (token ''a'') ''{{a}}'' = '' {{a}}''"
    by (simp add: token_def)
  from first a b c show ?thesis
    by (simp add: filled_def token_def plain_environment_def)
qed

section \<open>Properties of the staged materialization procedure\<close>

lemma and_then_evaluateE:
  assumes "and_then (evaluate r) f = (outcome, sent)"
  obtains (raised) e where "r = Inl e" "outcome = Inl e" "sent = []"
        | (returned) x where "r = Inr x" "f x = (outcome, sent)"
  using assms by (cases r) (auto simp: and_then_def evaluate_def split: prod.splits)

lemma and_then_sendE:
  assumes "and_then (send req a) f = (outcome, sent)"
  obtains (raised) e where "a = Inl e" "outcome = Inl e" "sent = [req]"
        | (returned) x rest where "a = Inr x" "f x = (outcome, rest)" "sent = req # rest"
  using assms by (cases a) (auto simp: and_then_def send_def split: prod.splits)

lemma py_assert_Inr [simp]: "py_assert b = Inr u \<longleftrightarrow> b"
  by (simp add: py_assert_def)

lemma py_assert_Inl [simp]: "py_assert b = Inl e \<longleftrightarrow> \<not> b \<and> e = AssertionError"
  by (auto simp: py_assert_def)

lemma submit_bigquery_job_Inr:
  "submit_bigquery_job j = Inr u \<longleftrightarrow>
     \<not> result_raises j \<and> (case errors j of None \<Rightarrow> True | Some es \<Rightarrow> es = [])"
  by (simp add: submit_bigquery_job_def split: option.splits)

lemma reports_errors_not_completed:
  "reports_errors a \<Longrightarrow> \<not> completed_without_errors a"
  by (auto simp: reports_errors_def completed_without_errors_def split: sum.splits option.splits)

lemma temp_is_not_dest: "temp_table_ref p task ms \<noteq> dest_table_ref p task"
proof
  assume "temp_table_ref p task ms = dest_table_ref p task"
  then have "dataset_id (temp_table_ref p task ms) = dataset_id (dest_table_ref p task)"
    by simp
  then have "length (dataset_name_temp p) = length (dataset_name p)"
    by (simp add: temp_table_ref_def dest_table_ref_def)
  then show False
    by (simp add: dataset_name_temp_def dataset_name_def)
qed

text \<open>The tail: the copy request alone when the copy job fails, the copy and the delete
  request otherwise.\<close>

lemma copy_and_delete_stages:
  assumes "copy_and_delete p task ms w = (outcome, sent)"
  shows "(\<not> completed_without_errors (copy_table w) \<and> (\<exists>e. outcome = Inl e) \<and>
            sent = [copy_request p task ms]) \<or>
         (completed_without_errors (copy_table w) \<and> outcome = delete_table w \<and>
            sent = [copy_request p task ms, DeleteTable (temp_table_ref p task ms)])"
  using assms unfolding copy_and_delete_def copy_request_def [symmetric]
proof (cases rule: and_then_sendE)
  case (raised e)
  then show ?thesis by (simp add: completed_without_errors_def)
next
  case (returned copy_job rest)
  from returned(2) show ?thesis
  proof (cases rule: and_then_evaluateE)
    case (raised e)
    with returned show ?thesis
      by (auto simp: completed_without_errors_def submit_bigquery_job_def split: if_splits option.splits)
  next
    case inner: (returned u)
    from inner(2) show ?thesis
    proof (cases rule: and_then_evaluateE)
      case (raised e)
      with returned show ?thesis
        by (auto simp: completed_without_errors_def)
    next
      case last: (returned u')
      with returned inner show ?thesis
        by (auto simp: completed_without_errors_def submit_bigquery_job_Inr send_def)
    qed
  qed
qed

lemma completed_Inl [simp]: "\<not> completed_without_errors (Inl e)"
  by (simp add: completed_without_errors_def)

lemma completed_Inr:
  "completed_without_errors (Inr j) \<longleftrightarrow> submit_bigquery_job j = Inr () \<and> state j = ''DONE''"
  by (auto simp: completed_without_errors_def submit_bigquery_job_def split: option.splits)

lemma enrich_table_stages:
  assumes "enrich_table p task tpf ms w = (outcome, sent)"
  shows
    "((\<exists>e. outcome = Inl e) \<and> sent = []) \<or>
     (\<exists>t. table_reference t = temp_table_ref p task ms \<and>
        (((\<exists>e. outcome = Inl e) \<and> sent = [CreateTable t]) \<or>
         (\<exists>text. read_file (file_system p) (sql_path p task) (Some (pipeline_environment p))
                   = Inr text \<and>
            (((\<exists>e. outcome = Inl e) \<and> \<not> completed_without_errors (query w) \<and>
                sent = [CreateTable t, query_request p task ms text]) \<or>
             ((\<exists>e. outcome = Inl e) \<and> completed_without_errors (query w) \<and>
                \<not> completed_without_errors (copy_table w) \<and>
                sent = [CreateTable t, query_request p task ms text, copy_request p task ms]) \<or>
             (outcome = delete_table w \<and> completed_without_errors (query w) \<and>
                completed_without_errors (copy_table w) \<and>
                sent = [CreateTable t, query_request p task ms text, copy_request p task ms,
                        DeleteTable (temp_table_ref p task ms)])))))"
  using assms unfolding enrich_table_def query_request_def [symmetric]
  apply (elim and_then_evaluateE and_then_sendE)
           apply (simp_all add: Table_def)
     apply (auto simp: completed_Inr dest!: copy_and_delete_stages)
  done

lemma enrich_view_stages:
  assumes "enrich_view p task tpf ms w = (outcome, sent)"
  shows
    "((\<exists>e. outcome = Inl e) \<and> sent = []) \<or>
     (\<exists>t template text.
        table_reference t = temp_table_ref p task ms \<and>
        read_file (file_system p) (sql_path p task) None = Inr template \<and>
        str_format p template (chain p) = Inr text \<and> view_query t = Some text \<and>
        (((\<exists>e. outcome = Inl e) \<and> sent = [CreateTable t]) \<or>
         ((\<exists>e. outcome = Inl e) \<and> \<not> completed_without_errors (copy_table w) \<and>
            sent = [CreateTable t, copy_request p task ms]) \<or>
         (outcome = delete_table w \<and> completed_without_errors (copy_table w) \<and>
            sent = [CreateTable t, copy_request p task ms,
                    DeleteTable (temp_table_ref p task ms)])))"
  using assms unfolding enrich_view_def
  apply (elim and_then_evaluateE and_then_sendE)
       apply (simp_all add: Table_def)
  apply (auto dest!: copy_and_delete_stages)
  done

lemma target_copy_request [simp]: "target (copy_request p task ms) = dest_table_ref p task"
  by (simp add: copy_request_def)

lemma target_query_request [simp]:
  "target (query_request p task ms text) = temp_table_ref p task ms"
  by (simp add: query_request_def)

lemma copy_is_not_other [simp]:
  "copy_request p task ms \<noteq> CreateTable t"
  "copy_request p task ms \<noteq> query_request p task ms text"
  "copy_request p task ms \<noteq> DeleteTable r"
  "CreateTable t \<noteq> copy_request p task ms"
  "query_request p task ms text \<noteq> copy_request p task ms"
  "DeleteTable r \<noteq> copy_request p task ms"
  by (simp_all add: copy_request_def query_request_def)

lemma query_is_not_delete [simp]:
  "query_request p task ms text \<noteq> DeleteTable r"
  "DeleteTable r \<noteq> query_request p task ms text"
  "query_request p task ms text \<noteq> CreateTable t"
  "CreateTable t \<noteq> query_request p task ms text"
  "query_request p task ms a = query_request p task ms b \<longleftrightarrow> a = b"
  by (simp_all add: query_request_def)

lemma target_cases [simp]:
  "table_reference t = temp_table_ref p task ms \<Longrightarrow>
   target (CreateTable t) \<noteq> dest_table_ref p task"
  "temp_table_ref p task ms \<noteq> dest_table_ref p task"
  using temp_is_not_dest [of p task ms] by simp_all

text \<open>
  C1, amended. In both modes of the staged materialization procedure the temporary table
  and the destination table differ, every request whose target is the destination table
  is the one copy request with \<^verbatim>\<open>WRITE_TRUNCATE\<close>, and every other request (the
  creation, the population query of table mode, the deletion) has the temporary table in
  the temp dataset as its target. The destination is the target of no request in an
  execution that ends before the copy step and of exactly one, the copy, in every
  execution that reaches it, so in every execution that returns.
\<close>

theorem destination_written_only_by_copy:
  assumes "enrich_task p task tpf is_view ms w = (outcome, sent)"
  shows "temp_table_ref p task ms \<noteq> dest_table_ref p task \<and>
     (\<forall>req \<in> set sent.
        if target req = dest_table_ref p task then req = copy_request p task ms
        else target req = temp_table_ref p task ms) \<and>
     filter (\<lambda>req. target req = dest_table_ref p task) sent =
       (if copy_request p task ms \<in> set sent then [copy_request p task ms] else []) \<and>
     (outcome = Inr () \<longrightarrow> copy_request p task ms \<in> set sent)"
proof (cases is_view)
  case True
  with assms have "enrich_view p task tpf ms w = (outcome, sent)"
    by (simp add: enrich_task_def)
  from enrich_view_stages [OF this] show ?thesis
    by (elim disjE exE conjE) simp_all
next
  case False
  with assms have "enrich_table p task tpf ms w = (outcome, sent)"
    by (simp add: enrich_task_def)
  from enrich_table_stages [OF this] show ?thesis
    by (elim disjE exE conjE) simp_all
qed

text \<open>
  C2. In both modes a delete request is sent only for the temporary table, last, right
  behind the copy request, and only when the copy job has completed without errors and in
  state \<^verbatim>\<open>DONE\<close>. When the copy job, or in table mode the query job, reports errors
  (the call raises, the wait for the result raises, or \<^verbatim>\<open>job.errors\<close> is not empty),
  the procedure ends with an exception at once and no delete request is sent: the request
  of the failing job is the last one sent (after a failed query job no copy request
  follows), and the temporary table has been created before and stays.
\<close>

theorem delete_only_after_successful_copy:
  assumes "enrich_task p task tpf is_view ms w = (outcome, sent)"
  shows
    "(\<forall>ref. DeleteTable ref \<in> set sent \<longrightarrow>
        completed_without_errors (copy_table w) \<and> ref = temp_table_ref p task ms \<and>
        (\<exists>before. sent = before @ [copy_request p task ms, DeleteTable ref] \<and>
           (\<forall>r. DeleteTable r \<notin> set before))) \<and>
     (reports_errors (copy_table w) \<or> \<not> is_view \<and> reports_errors (query w) \<longrightarrow>
        (\<exists>e. outcome = Inl e) \<and> (\<forall>ref. DeleteTable ref \<notin> set sent)) \<and>
     (reports_errors (copy_table w) \<and> copy_request p task ms \<in> set sent \<longrightarrow>
        last sent = copy_request p task ms \<and>
        (\<exists>t. CreateTable t \<in> set sent \<and> table_reference t = temp_table_ref p task ms)) \<and>
     (\<not> is_view \<and> reports_errors (query w) \<longrightarrow>
        copy_request p task ms \<notin> set sent \<and>
        (\<forall>text. query_request p task ms text \<in> set sent \<longrightarrow>
           last sent = query_request p task ms text \<and>
           (\<exists>t. CreateTable t \<in> set sent \<and>
                table_reference t = temp_table_ref p task ms)))"
proof (cases is_view)
  case True
  with assms have "enrich_view p task tpf ms w = (outcome, sent)"
    by (simp add: enrich_task_def)
  from enrich_view_stages [OF this] True show ?thesis
    by (elim disjE exE conjE) (auto dest: reports_errors_not_completed)
next
  case False
  with assms have "enrich_table p task tpf ms w = (outcome, sent)"
    by (simp add: enrich_task_def)
  from enrich_table_stages [OF this] False show ?thesis
    by (elim disjE exE conjE) (auto dest: reports_errors_not_completed)
qed

lemma example_temp_table_name:
  "temp_table_name ''blocks'' 1530403200000 = ''blocks_1530403200000''"
  "temp_table_name ''inputs'' 1530403200000 = ''inputs_1530403200000''"
  by (simp_all add: temp_table_name_def str_int_def str_nat.simps digit_char_def)

lemmas example_defs =
  enrich_task_def enrich_table_def enrich_view_def and_then_def evaluate_def send_def
  read_file_def read_bigquery_schema_from_file_def example_pipeline_def
  all_succeed_def create_fails_def copy_fails_def query_fails_def done_job_def failed_job_def
  example_files_def suffix_to_prefix path_join_def dags_folder_def description_path_def
  schema_path_def sql_path_def verify_sql_path_def
  py_assert_def submit_bigquery_job_def copy_and_delete_def substitute_def
  pipeline_environment_def token_def dataset_name_def dataset_name_raw_def
  dataset_name_temp_def temp_table_ref_def dest_table_ref_def Table_def
  example_temp_table_name copy_request_def query_request_def

lemma example_run_create_fails:
  "enrich_task example_pipeline ''blocks'' (Some ''timestamp_month'') False 1530403200000
     create_fails
   = (Inl RemoteError,
      [CreateTable \<lparr>table_reference = \<lparr>project = ''etl'', dataset_id = ''bitcoin_blockchain_temp'',
                                        table_id = ''blocks_1530403200000''\<rparr>,
                    table_description = Some ''Enriched table'',
                    time_partitioning = Some ''timestamp_month'', table_schema = [],
                    view_query = None, view_use_legacy_sql = None\<rparr>])"
  by (simp add: example_defs)

lemma example_run_copy_fails:
  "enrich_task example_pipeline ''blocks'' (Some ''timestamp_month'') False 1530403200000
     (copy_fails ''blocks_1530403200000'')
   = (Inl AssertionError,
      [CreateTable \<lparr>table_reference = \<lparr>project = ''etl'', dataset_id = ''bitcoin_blockchain_temp'',
                                        table_id = ''blocks_1530403200000''\<rparr>,
                    table_description = Some ''Enriched table'',
                    time_partitioning = Some ''timestamp_month'', table_schema = [],
                    view_query = None, view_use_legacy_sql = None\<rparr>,
       Query ''bitcoin_blockchain.transactions'' ''US''
         \<lparr>priority = ''INTERACTIVE'',
          destination = \<lparr>project = ''etl'', dataset_id = ''bitcoin_blockchain_temp'',
                          table_id = ''blocks_1530403200000''\<rparr>\<rparr>,
       CopyTable \<lparr>project = ''etl'', dataset_id = ''bitcoin_blockchain_temp'',
                   table_id = ''blocks_1530403200000''\<rparr>
                 \<lparr>project = ''warehouse'', dataset_id = ''bitcoin_blockchain'',
                   table_id = ''blocks''\<rparr> ''US'' \<lparr>write_disposition = ''WRITE_TRUNCATE''\<rparr>])"
  by (simp add: example_defs)

lemma example_run_query_fails:
  "enrich_task example_pipeline ''blocks'' (Some ''timestamp_month'') False 1530403200000
     (query_fails ''blocks_1530403200000'')
   = (Inl AssertionError,
      [CreateTable \<lparr>table_reference = \<lparr>project = ''etl'', dataset_id = ''bitcoin_blockchain_temp'',
                                        table_id = ''blocks_1530403200000''\<rparr>,
                    table_description = Some ''Enriched table'',
                    time_partitioning = Some ''timestamp_month'', table_schema = [],
                    view_query = None, view_use_legacy_sql = None\<rparr>,
       Query ''bitcoin_blockchain.transactions'' ''US''
         \<lparr>priority = ''INTERACTIVE'',
          destination = \<lparr>project = ''etl'', dataset_id = ''bitcoin_blockchain_temp'',
                          table_id = ''blocks_1530403200000''\<rparr>\<rparr>])"
  by (simp add: example_defs)

lemma example_run_table:
  "enrich_task example_pipeline ''blocks'' (Some ''timestamp_month'') False 1530403200000
     (all_succeed ''blocks_1530403200000'')
   = (Inr (),
      [CreateTable \<lparr>table_reference = \<lparr>project = ''etl'', dataset_id = ''bitcoin_blockchain_temp'',
                                        table_id = ''blocks_1530403200000''\<rparr>,
                    table_description = Some ''Enriched table'',
                    time_partitioning = Some ''timestamp_month'', table_schema = [],
                    view_query = None, view_use_legacy_sql = None\<rparr>,
       Query ''bitcoin_blockchain.transactions'' ''US''
         \<lparr>priority = ''INTERACTIVE'',
          destination = \<lparr>project = ''etl'', dataset_id = ''bitcoin_blockchain_temp'',
                          table_id = ''blocks_1530403200000''\<rparr>\<rparr>,
       CopyTable \<lparr>project = ''etl'', dataset_id = ''bitcoin_blockchain_temp'',
                   table_id = ''blocks_1530403200000''\<rparr>
                 \<lparr>project = ''warehouse'', dataset_id = ''bitcoin_blockchain'',
                   table_id = ''blocks''\<rparr> ''US'' \<lparr>write_disposition = ''WRITE_TRUNCATE''\<rparr>,
       DeleteTable \<lparr>project = ''etl'', dataset_id = ''bitcoin_blockchain_temp'',
                     table_id = ''blocks_1530403200000''\<rparr>])"
  by (simp add: example_defs)

lemma example_run_view:
  "enrich_task example_pipeline ''inputs'' None True 1530403200000
     (all_succeed ''inputs_1530403200000'')
   = (Inr (),
      [CreateTable \<lparr>table_reference = \<lparr>project = ''etl'', dataset_id = ''bitcoin_blockchain_temp'',
                                        table_id = ''inputs_1530403200000''\<rparr>,
                    table_description = Some ''Enriched table'',
                    time_partitioning = None, table_schema = [],
                    view_query = Some ''{dataset_name}.transactions'',
                    view_use_legacy_sql = Some False\<rparr>,
       CopyTable \<lparr>project = ''etl'', dataset_id = ''bitcoin_blockchain_temp'',
                   table_id = ''inputs_1530403200000''\<rparr>
                 \<lparr>project = ''warehouse'', dataset_id = ''bitcoin_blockchain'',
                   table_id = ''inputs''\<rparr> ''US'' \<lparr>write_disposition = ''WRITE_TRUNCATE''\<rparr>,
       DeleteTable \<lparr>project = ''etl'', dataset_id = ''bitcoin_blockchain_temp'',
                     table_id = ''inputs_1530403200000''\<rparr>])"
  by (simp add: example_defs)

lemma example_environment_sql:
  "read_file (file_system example_pipeline) (sql_path example_pipeline ''inputs'')
     (Some (pipeline_environment example_pipeline)) = Inr ''bitcoin_blockchain.transactions''"
  by (simp add: example_defs)

lemma example_refs:
  "dest_table_ref example_pipeline ''blocks''
   = \<lparr>project = ''warehouse'', dataset_id = ''bitcoin_blockchain'', table_id = ''blocks''\<rparr>"
  "temp_table_ref example_pipeline ''blocks'' 1530403200000
   = \<lparr>project = ''etl'', dataset_id = ''bitcoin_blockchain_temp'',
      table_id = ''blocks_1530403200000''\<rparr>"
  "copy_request example_pipeline ''blocks'' 1530403200000
   = CopyTable \<lparr>project = ''etl'', dataset_id = ''bitcoin_blockchain_temp'',
                 table_id = ''blocks_1530403200000''\<rparr>
               \<lparr>project = ''warehouse'', dataset_id = ''bitcoin_blockchain'',
                 table_id = ''blocks''\<rparr> ''US'' \<lparr>write_disposition = ''WRITE_TRUNCATE''\<rparr>"
  by (simp_all add: example_defs)

text \<open>
  C1. The claim as stated counts exactly one operation on the destination table in every
  execution. In table mode, when the creation of the temporary table raises, the
  procedure ends with that exception after the creation request alone: no request of
  the execution has the destination table as its target.
\<close>

theorem destination_written_exactly_once_counterexample:
  "enrich_task example_pipeline ''blocks'' (Some ''timestamp_month'') False 1530403200000
     create_fails
   = (Inl RemoteError,
      [CreateTable \<lparr>table_reference = \<lparr>project = ''etl'', dataset_id = ''bitcoin_blockchain_temp'',
                                        table_id = ''blocks_1530403200000''\<rparr>,
                    table_description = Some ''Enriched table'',
                    time_partitioning = Some ''timestamp_month'', table_schema = [],
                    view_query = None, view_use_legacy_sql = None\<rparr>]) \<and>
   length (filter (\<lambda>req. target req = dest_table_ref example_pipeline ''blocks'')
             (snd (enrich_task example_pipeline ''blocks'' (Some ''timestamp_month'') False
                     1530403200000 create_fails))) = 0"
  by (simp add: example_run_create_fails example_refs)

theorem destination_written_only_by_copy_witness:
  "enrich_task example_pipeline ''blocks'' (Some ''timestamp_month'') False 1530403200000
     (all_succeed ''blocks_1530403200000'')
   = (Inr (),
      [CreateTable \<lparr>table_reference = \<lparr>project = ''etl'', dataset_id = ''bitcoin_blockchain_temp'',
                                        table_id = ''blocks_1530403200000''\<rparr>,
                    table_description = Some ''Enriched table'',
                    time_partitioning = Some ''timestamp_month'', table_schema = [],
                    view_query = None, view_use_legacy_sql = None\<rparr>,
       Query ''bitcoin_blockchain.transactions'' ''US''
         \<lparr>priority = ''INTERACTIVE'',
          destination = \<lparr>project = ''etl'', dataset_id = ''bitcoin_blockchain_temp'',
                          table_id = ''blocks_1530403200000''\<rparr>\<rparr>,
       CopyTable \<lparr>project = ''etl'', dataset_id = ''bitcoin_blockchain_temp'',
                   table_id = ''blocks_1530403200000''\<rparr>
                 \<lparr>project = ''warehouse'', dataset_id = ''bitcoin_blockchain'',
                   table_id = ''blocks''\<rparr> ''US'' \<lparr>write_disposition = ''WRITE_TRUNCATE''\<rparr>,
       DeleteTable \<lparr>project = ''etl'', dataset_id = ''bitcoin_blockchain_temp'',
                     table_id = ''blocks_1530403200000''\<rparr>]) \<and>
   filter (\<lambda>req. target req = \<lparr>project = ''warehouse'', dataset_id = ''bitcoin_blockchain'',
                                 table_id = ''blocks''\<rparr>)
     (snd (enrich_task example_pipeline ''blocks'' (Some ''timestamp_month'') False
             1530403200000 (all_succeed ''blocks_1530403200000'')))
   = [CopyTable \<lparr>project = ''etl'', dataset_id = ''bitcoin_blockchain_temp'',
                  table_id = ''blocks_1530403200000''\<rparr>
                \<lparr>project = ''warehouse'', dataset_id = ''bitcoin_blockchain'',
                  table_id = ''blocks''\<rparr> ''US'' \<lparr>write_disposition = ''WRITE_TRUNCATE''\<rparr>]"
  using destination_written_only_by_copy [OF example_run_table]
  by (simp add: example_run_table example_refs)

theorem delete_only_after_successful_copy_witness:
  "reports_errors (copy_table (copy_fails ''blocks_1530403200000'')) \<and>
   fst (enrich_task example_pipeline ''blocks'' (Some ''timestamp_month'') False 1530403200000
          (copy_fails ''blocks_1530403200000'')) = Inl AssertionError \<and>
   (\<forall>ref. DeleteTable ref \<notin> set (snd (enrich_task example_pipeline ''blocks''
       (Some ''timestamp_month'') False 1530403200000 (copy_fails ''blocks_1530403200000'')))) \<and>
   reports_errors (query (query_fails ''blocks_1530403200000'')) \<and>
   enrich_task example_pipeline ''blocks'' (Some ''timestamp_month'') False 1530403200000
     (query_fails ''blocks_1530403200000'')
   = (Inl AssertionError,
      [CreateTable \<lparr>table_reference = \<lparr>project = ''etl'', dataset_id = ''bitcoin_blockchain_temp'',
                                        table_id = ''blocks_1530403200000''\<rparr>,
                    table_description = Some ''Enriched table'',
                    time_partitioning = Some ''timestamp_month'', table_schema = [],
                    view_query = None, view_use_legacy_sql = None\<rparr>,
       query_request example_pipeline ''blocks'' 1530403200000
         ''bitcoin_blockchain.transactions'']) \<and>
   copy_request example_pipeline ''blocks'' 1530403200000
     \<notin> set (snd (enrich_task example_pipeline ''blocks''
       (Some ''timestamp_month'') False 1530403200000 (query_fails ''blocks_1530403200000''))) \<and>
   completed_without_errors (copy_table (all_succeed ''blocks_1530403200000'')) \<and>
   DeleteTable (temp_table_ref example_pipeline ''blocks'' 1530403200000)
     \<in> set (snd (enrich_task example_pipeline ''blocks''
       (Some ''timestamp_month'') False 1530403200000 (all_succeed ''blocks_1530403200000'')))"
proof -
  have failed: "reports_errors (copy_table (copy_fails ''blocks_1530403200000''))"
    by (simp add: reports_errors_def copy_fails_def failed_job_def)
  have query_failed: "reports_errors (query (query_fails ''blocks_1530403200000''))"
    by (simp add: reports_errors_def query_fails_def failed_job_def)
  have succeeded: "completed_without_errors (copy_table (all_succeed ''blocks_1530403200000''))"
    by (simp add: completed_without_errors_def all_succeed_def done_job_def)
  have request: "query_request example_pipeline ''blocks'' 1530403200000
         ''bitcoin_blockchain.transactions''
       = Query ''bitcoin_blockchain.transactions'' ''US''
         \<lparr>priority = ''INTERACTIVE'',
          destination = \<lparr>project = ''etl'', dataset_id = ''bitcoin_blockchain_temp'',
                          table_id = ''blocks_1530403200000''\<rparr>\<rparr>"
    by (simp add: example_defs)
  show ?thesis
    using failed query_failed succeeded
      delete_only_after_successful_copy [OF example_run_copy_fails]
      delete_only_after_successful_copy [OF example_run_query_fails]
      delete_only_after_successful_copy [OF example_run_table]
    by (simp add: example_run_copy_fails example_run_query_fails example_run_table
        example_refs request)
qed
section \<open>Properties of the task graph\<close>

lemma on_successE:
  assumes "on_success r f = Inr y"
  obtains x where "r = Inr x" "f x = Inr y"
  using assms by (cases r) (auto simp: on_success_def)

lemma add_dependencies_Some:
  "add_dependencies (Some ds) t d = d\<lparr>edges := edges d @ map (\<lambda>dep. (dep, t)) ds\<rparr>"
proof -
  have "fold (\<lambda>dependency. set_downstream dependency t) xs d0
        = d0\<lparr>edges := edges d0 @ map (\<lambda>dep. (dep, t)) xs\<rparr>" for xs and d0 :: dag
    by (induction xs arbitrary: d0) (simp_all add: set_downstream_def)
  then show ?thesis
    by (simp add: add_dependencies_def)
qed

lemma add_load_tasks_eq:
  "add_load_tasks p task file_format a d =
     (''load_'' @ task,
      \<lparr>tasks = tasks d @
         [\<lparr>task_id = ''wait_latest_'' @ task,
           operator = GoogleCloudStorageObjectSensor 3600 60 (output_bucket p)
             (''export/'' @ task @ ''/block_date={{ds}}/'' @ task @ ''.'' @ file_format)\<rparr>,
          \<lparr>task_id = ''load_'' @ task,
           operator = PythonOperator (LoadTask task file_format a) 30\<rparr>],
       edges = edges d @ [(''wait_latest_'' @ task, ''load_'' @ task)]\<rparr>)"
  by (simp add: add_load_tasks_def add_task_def set_downstream_def)

lemma add_enrich_tasks_eq:
  "add_enrich_tasks task tpf v (Some ds) d =
     (''enrich_'' @ task,
      \<lparr>tasks = tasks d @
         [\<lparr>task_id = ''enrich_'' @ task, operator = PythonOperator (EnrichTask task tpf v) 60\<rparr>],
       edges = edges d @ map (\<lambda>dep. (dep, ''enrich_'' @ task)) ds\<rparr>)"
  by (simp add: add_enrich_tasks_def add_task_def add_dependencies_Some)

lemma on_success_Inr [simp]: "on_success (Inr x) f = f x"
  by (simp add: on_success_def)

lemma verify_step:
  assumes "on_success (add_verify_tasks p task (Some ds) d) (\<lambda>(v, d'). g v d') = Inr y"
  obtains d' where
    "task_ids d' = task_ids d @ [''verify_'' @ task]"
    "edges d' = edges d @ map (\<lambda>dep. (dep, ''verify_'' @ task)) ds"
    "verify_sql_read p d \<Longrightarrow> verify_sql_read p d'"
    "g (''verify_'' @ task) d' = Inr y"
proof -
  from assms obtain sql_text where
    rd: "read_file (file_system p) (verify_sql_path p task) (Some (pipeline_environment p))
           = Inr sql_text"
    by (auto simp: on_success_def add_verify_tasks_def split: sum.splits)
  define d' where
    "d' = d\<lparr>tasks := tasks d @
              [\<lparr>task_id = ''verify_'' @ task, operator = BigQueryOperator sql_text False\<rparr>],
            edges := edges d @ map (\<lambda>dep. (dep, ''verify_'' @ task)) ds\<rparr>"
  have step: "add_verify_tasks p task (Some ds) d = Inr (''verify_'' @ task, d')"
    by (simp add: add_verify_tasks_def rd add_task_def add_dependencies_Some d'_def)
  show thesis
  proof (rule that [of d'])
    show "task_ids d' = task_ids d @ [''verify_'' @ task]"
      by (simp add: d'_def task_ids_def)
    show "edges d' = edges d @ map (\<lambda>dep. (dep, ''verify_'' @ task)) ds"
      by (simp add: d'_def)
    show "verify_sql_read p d'" if "verify_sql_read p d"
      using that rd by (auto simp: verify_sql_read_def d'_def)
    show "g (''verify_'' @ task) d' = Inr y"
      using assms by (simp add: step)
  qed
qed

lemma conditional_verify_step:
  assumes "on_success (if c then on_success (add_verify_tasks p task (Some ds) d) (\<lambda>(v, d'). Inr d')
                       else Inr d) f = Inr y"
  obtains d' where
    "task_ids d' = task_ids d @ (if c then [''verify_'' @ task] else [])"
    "edges d' = edges d @ (if c then map (\<lambda>dep. (dep, ''verify_'' @ task)) ds else [])"
    "verify_sql_read p d \<Longrightarrow> verify_sql_read p d'"
    "f d' = Inr y"
proof (cases c)
  case True
  with assms obtain x where
    x: "on_success (add_verify_tasks p task (Some ds) d) (\<lambda>(v, d'). Inr d') = Inr x"
    and f: "f x = Inr y"
    by (auto elim: on_successE)
  from x show thesis
    by (rule verify_step) (use f True that in auto)
next
  case False
  with assms that [of d] show thesis by simp
qed

lemma last_verify_steps:
  assumes "(if c then on_success (add_verify_tasks p task (Some ds) d)
                        (\<lambda>(v, d'). on_success (add_verify_tasks p task' (Some ds') d')
                                       (\<lambda>(v, d''). Inr d''))
            else Inr d) = Inr y"
  shows "task_ids y = task_ids d @ (if c then [''verify_'' @ task, ''verify_'' @ task'] else [])"
    and "edges y = edges d @ (if c then map (\<lambda>dep. (dep, ''verify_'' @ task)) ds
                                     @ map (\<lambda>dep. (dep, ''verify_'' @ task')) ds' else [])"
    and "verify_sql_read p d \<Longrightarrow> verify_sql_read p y"
proof -
  have "task_ids y = task_ids d @ (if c then [''verify_'' @ task, ''verify_'' @ task'] else []) \<and>
        edges y = edges d @ (if c then map (\<lambda>dep. (dep, ''verify_'' @ task)) ds
                                     @ map (\<lambda>dep. (dep, ''verify_'' @ task')) ds' else []) \<and>
        (verify_sql_read p d \<longrightarrow> verify_sql_read p y)"
  proof (cases c)
    case True
    with assms have
      "on_success (add_verify_tasks p task (Some ds) d)
         (\<lambda>(v, d'). on_success (add_verify_tasks p task' (Some ds') d') (\<lambda>(v, d''). Inr d''))
       = Inr y"
      by simp
    then show ?thesis
      by (elim verify_step) (simp add: True)
  next
    case False
    with assms show ?thesis by simp
  qed
  then show "task_ids y = task_ids d @ (if c then [''verify_'' @ task, ''verify_'' @ task'] else [])"
    and "edges y = edges d @ (if c then map (\<lambda>dep. (dep, ''verify_'' @ task)) ds
                                     @ map (\<lambda>dep. (dep, ''verify_'' @ task')) ds' else [])"
    and "verify_sql_read p d \<Longrightarrow> verify_sql_read p y"
    by simp_all
qed

lemma build_load_dag_structure:
  assumes "build_load_dag p = Inr d"
  shows "task_ids d =
     [''wait_latest_blocks'', ''load_blocks'', ''wait_latest_transactions'',
      ''load_transactions'', ''enrich_blocks'', ''enrich_transactions'', ''enrich_inputs'',
      ''enrich_outputs'', ''verify_blocks_count'', ''verify_blocks_have_latest'',
      ''verify_transactions_count'', ''verify_transactions_have_latest'']
     @ (if chain p \<noteq> ''dogecoin'' then [''verify_transactions_fees''] else [])
     @ [''verify_coinbase_transactions_count'', ''verify_transaction_inputs_count'',
        ''verify_transaction_outputs_count'']
     @ (if chain p \<noteq> ''zcash''
        then [''verify_transaction_inputs_count_empty'',
              ''verify_transaction_outputs_count_empty'']
        else [])"
    and "edges d =
     [(''wait_latest_blocks'', ''load_blocks''),
      (''wait_latest_transactions'', ''load_transactions''),
      (''load_blocks'', ''enrich_blocks''),
      (''load_transactions'', ''enrich_transactions''),
      (''enrich_transactions'', ''enrich_inputs''),
      (''enrich_transactions'', ''enrich_outputs''),
      (''enrich_blocks'', ''verify_blocks_count''),
      (''enrich_blocks'', ''verify_blocks_have_latest''),
      (''enrich_blocks'', ''verify_transactions_count''),
      (''enrich_transactions'', ''verify_transactions_count''),
      (''enrich_transactions'', ''verify_transactions_have_latest'')]
     @ (if chain p \<noteq> ''dogecoin''
        then [(''enrich_transactions'', ''verify_transactions_fees'')] else [])
     @ [(''enrich_blocks'', ''verify_coinbase_transactions_count''),
        (''enrich_transactions'', ''verify_coinbase_transactions_count''),
        (''enrich_transactions'', ''verify_transaction_inputs_count''),
        (''enrich_transactions'', ''verify_transaction_outputs_count'')]
     @ (if chain p \<noteq> ''zcash''
        then [(''enrich_transactions'', ''verify_transaction_inputs_count_empty''),
              (''enrich_transactions'', ''verify_transaction_outputs_count_empty'')]
        else [])"
    and "verify_sql_read p d"
proof -
  define d6 where
    "d6 = snd (add_enrich_tasks ''outputs'' None True (Some [''enrich_transactions''])
           (snd (add_enrich_tasks ''inputs'' None True (Some [''enrich_transactions''])
           (snd (add_enrich_tasks ''transactions'' (Some ''block_timestamp_month'') False
                   (Some [''load_transactions''])
           (snd (add_enrich_tasks ''blocks'' (Some ''timestamp_month'') False
                   (Some [''load_blocks''])
           (snd (add_load_tasks p ''transactions'' ''json'' False
           (snd (add_load_tasks p ''blocks'' ''json'' False empty_dag)))))))))))"
  have ids6: "task_ids d6 =
     [''wait_latest_blocks'', ''load_blocks'', ''wait_latest_transactions'',
      ''load_transactions'', ''enrich_blocks'', ''enrich_transactions'', ''enrich_inputs'',
      ''enrich_outputs'']"
    and edges6: "edges d6 =
     [(''wait_latest_blocks'', ''load_blocks''),
      (''wait_latest_transactions'', ''load_transactions''),
      (''load_blocks'', ''enrich_blocks''),
      (''load_transactions'', ''enrich_transactions''),
      (''enrich_transactions'', ''enrich_inputs''),
      (''enrich_transactions'', ''enrich_outputs'')]"
    and read6: "verify_sql_read p d6"
    by (simp_all add: d6_def add_load_tasks_eq add_enrich_tasks_eq empty_dag_def task_ids_def
          verify_sql_read_def)
  from assms have run:
    "on_success (add_verify_tasks p ''blocks_count'' (Some [''enrich_blocks'']) d6)
        (\<lambda>(v, d7).
      on_success (add_verify_tasks p ''blocks_have_latest'' (Some [''enrich_blocks'']) d7)
        (\<lambda>(v, d8).
      on_success (add_verify_tasks p ''transactions_count''
                    (Some [''enrich_blocks'', ''enrich_transactions'']) d8)
        (\<lambda>(v, d9).
      on_success (add_verify_tasks p ''transactions_have_latest''
                    (Some [''enrich_transactions'']) d9)
        (\<lambda>(v, d10).
      on_success (if chain p \<noteq> ''dogecoin''
                  then on_success (add_verify_tasks p ''transactions_fees''
                                     (Some [''enrich_transactions'']) d10)
                         (\<lambda>(v, d). Inr d)
                  else Inr d10)
        (\<lambda>d11.
      on_success (add_verify_tasks p ''coinbase_transactions_count''
                    (Some [''enrich_blocks'', ''enrich_transactions'']) d11)
        (\<lambda>(v, d12).
      on_success (add_verify_tasks p ''transaction_inputs_count''
                    (Some [''enrich_transactions'']) d12)
        (\<lambda>(v, d13).
      on_success (add_verify_tasks p ''transaction_outputs_count''
                    (Some [''enrich_transactions'']) d13)
        (\<lambda>(v, d14).
      if chain p \<noteq> ''zcash''
      then on_success (add_verify_tasks p ''transaction_inputs_count_empty''
                         (Some [''enrich_transactions'']) d14)
             (\<lambda>(v, d15).
           on_success (add_verify_tasks p ''transaction_outputs_count_empty''
                         (Some [''enrich_transactions'']) d15)
             (\<lambda>(v, d16). Inr d16))
      else Inr d14)))))))) = Inr d"
    unfolding build_load_dag_def d6_def
    by (simp only: Let_def add_load_tasks_eq add_enrich_tasks_eq prod.case snd_conv append.simps)
  from run obtain d7 d8 d9 d10 d11 d12 d13 d14 where
    ids: "task_ids d7 = task_ids d6 @ [''verify_'' @ ''blocks_count'']"
      "task_ids d8 = task_ids d7 @ [''verify_'' @ ''blocks_have_latest'']"
      "task_ids d9 = task_ids d8 @ [''verify_'' @ ''transactions_count'']"
      "task_ids d10 = task_ids d9 @ [''verify_'' @ ''transactions_have_latest'']"
      "task_ids d11 = task_ids d10
         @ (if chain p \<noteq> ''dogecoin'' then [''verify_'' @ ''transactions_fees''] else [])"
      "task_ids d12 = task_ids d11 @ [''verify_'' @ ''coinbase_transactions_count'']"
      "task_ids d13 = task_ids d12 @ [''verify_'' @ ''transaction_inputs_count'']"
      "task_ids d14 = task_ids d13 @ [''verify_'' @ ''transaction_outputs_count'']"
    and es: "edges d7 = edges d6 @ map (\<lambda>dep. (dep, ''verify_'' @ ''blocks_count'')) [''enrich_blocks'']"
      "edges d8 = edges d7 @ map (\<lambda>dep. (dep, ''verify_'' @ ''blocks_have_latest'')) [''enrich_blocks'']"
      "edges d9 = edges d8 @ map (\<lambda>dep. (dep, ''verify_'' @ ''transactions_count''))
                               [''enrich_blocks'', ''enrich_transactions'']"
      "edges d10 = edges d9 @ map (\<lambda>dep. (dep, ''verify_'' @ ''transactions_have_latest''))
                               [''enrich_transactions'']"
      "edges d11 = edges d10 @ (if chain p \<noteq> ''dogecoin''
          then map (\<lambda>dep. (dep, ''verify_'' @ ''transactions_fees'')) [''enrich_transactions'']
          else [])"
      "edges d12 = edges d11 @ map (\<lambda>dep. (dep, ''verify_'' @ ''coinbase_transactions_count''))
                               [''enrich_blocks'', ''enrich_transactions'']"
      "edges d13 = edges d12 @ map (\<lambda>dep. (dep, ''verify_'' @ ''transaction_inputs_count''))
                               [''enrich_transactions'']"
      "edges d14 = edges d13 @ map (\<lambda>dep. (dep, ''verify_'' @ ''transaction_outputs_count''))
                               [''enrich_transactions'']"
    and rd: "verify_sql_read p d6 \<Longrightarrow> verify_sql_read p d7"
      "verify_sql_read p d7 \<Longrightarrow> verify_sql_read p d8"
      "verify_sql_read p d8 \<Longrightarrow> verify_sql_read p d9"
      "verify_sql_read p d9 \<Longrightarrow> verify_sql_read p d10"
      "verify_sql_read p d10 \<Longrightarrow> verify_sql_read p d11"
      "verify_sql_read p d11 \<Longrightarrow> verify_sql_read p d12"
      "verify_sql_read p d12 \<Longrightarrow> verify_sql_read p d13"
      "verify_sql_read p d13 \<Longrightarrow> verify_sql_read p d14"
    and last: "(if chain p \<noteq> ''zcash''
      then on_success (add_verify_tasks p ''transaction_inputs_count_empty''
                         (Some [''enrich_transactions'']) d14)
             (\<lambda>(v, d15).
           on_success (add_verify_tasks p ''transaction_outputs_count_empty''
                         (Some [''enrich_transactions'']) d15)
             (\<lambda>(v, d16). Inr d16))
      else Inr d14) = Inr d"
    by (elim verify_step conditional_verify_step) blast
  note fin = last_verify_steps [OF last]
  show "verify_sql_read p d"
    using read6 rd fin(3) by blast
  show "task_ids d = 
     [''wait_latest_blocks'', ''load_blocks'', ''wait_latest_transactions'',
      ''load_transactions'', ''enrich_blocks'', ''enrich_transactions'', ''enrich_inputs'',
      ''enrich_outputs'', ''verify_blocks_count'', ''verify_blocks_have_latest'',
      ''verify_transactions_count'', ''verify_transactions_have_latest'']
     @ (if chain p \<noteq> ''dogecoin'' then [''verify_transactions_fees''] else [])
     @ [''verify_coinbase_transactions_count'', ''verify_transaction_inputs_count'',
        ''verify_transaction_outputs_count'']
     @ (if chain p \<noteq> ''zcash''
        then [''verify_transaction_inputs_count_empty'',
              ''verify_transaction_outputs_count_empty'']
        else [])"
    by (simp add: fin(1) ids ids6)
  show "edges d =
     [(''wait_latest_blocks'', ''load_blocks''),
      (''wait_latest_transactions'', ''load_transactions''),
      (''load_blocks'', ''enrich_blocks''),
      (''load_transactions'', ''enrich_transactions''),
      (''enrich_transactions'', ''enrich_inputs''),
      (''enrich_transactions'', ''enrich_outputs''),
      (''enrich_blocks'', ''verify_blocks_count''),
      (''enrich_blocks'', ''verify_blocks_have_latest''),
      (''enrich_blocks'', ''verify_transactions_count''),
      (''enrich_transactions'', ''verify_transactions_count''),
      (''enrich_transactions'', ''verify_transactions_have_latest'')]
     @ (if chain p \<noteq> ''dogecoin''
        then [(''enrich_transactions'', ''verify_transactions_fees'')] else [])
     @ [(''enrich_blocks'', ''verify_coinbase_transactions_count''),
        (''enrich_transactions'', ''verify_coinbase_transactions_count''),
        (''enrich_transactions'', ''verify_transaction_inputs_count''),
        (''enrich_transactions'', ''verify_transaction_outputs_count'')]
     @ (if chain p \<noteq> ''zcash''
        then [(''enrich_transactions'', ''verify_transaction_inputs_count_empty''),
              (''enrich_transactions'', ''verify_transaction_outputs_count_empty'')]
        else [])"
    by (simp add: fin(2) es edges6)
qed

lemma add_verify_tasks_returns:
  assumes "file_system p (verify_sql_path p task) \<noteq> None"
  shows "\<exists>d'. add_verify_tasks p task deps d = Inr (''verify_'' @ task, d')"
  using assms by (auto simp: add_verify_tasks_def read_file_def)

lemma on_success_verify_returns:
  assumes "\<And>task. file_system p (verify_sql_path p task) \<noteq> None"
    and "\<And>d'. \<exists>y. g (''verify_'' @ task) d' = Inr y"
  shows "\<exists>y. on_success (add_verify_tasks p task deps d) (\<lambda>(v, d'). g v d') = Inr y"
proof -
  from add_verify_tasks_returns [OF assms(1)] obtain d'
    where "add_verify_tasks p task deps d = Inr (''verify_'' @ task, d')"
    by blast
  with assms(2) [of d'] show ?thesis by simp
qed

lemma conditional_verify_returns:
  assumes "\<And>task. file_system p (verify_sql_path p task) \<noteq> None"
    and "\<And>d'. \<exists>y. f d' = Inr y"
  shows "\<exists>y. on_success (if c then on_success (add_verify_tasks p task deps d)
                                     (\<lambda>(v, d'). Inr d')
                            else Inr d) f = Inr y"
proof (cases c)
  case True
  from add_verify_tasks_returns [OF assms(1)] obtain d'
    where "add_verify_tasks p task deps d = Inr (''verify_'' @ task, d')"
    by blast
  with True assms(2) [of d'] show ?thesis by simp
next
  case False
  with assms(2) [of d] show ?thesis by simp
qed

lemma last_verify_returns:
  assumes "\<And>task. file_system p (verify_sql_path p task) \<noteq> None"
  shows "\<exists>y. (if c then on_success (add_verify_tasks p task deps d)
                          (\<lambda>(v, d'). on_success (add_verify_tasks p task' deps' d')
                                         (\<lambda>(v, d''). Inr d''))
               else Inr d) = Inr y"
proof (cases c)
  case True
  have "\<exists>y. on_success (add_verify_tasks p task deps d)
              (\<lambda>(v, d'). on_success (add_verify_tasks p task' deps' d') (\<lambda>(v, d''). Inr d''))
            = Inr y"
    by (intro on_success_verify_returns assms) simp
  with True show ?thesis by simp
next
  case False
  then show ?thesis by simp
qed

lemma build_load_dag_returns:
  assumes "\<And>task. file_system p (verify_sql_path p task) \<noteq> None"
  shows "\<exists>d. build_load_dag p = Inr d"
  unfolding build_load_dag_def Let_def
  apply (simp only: add_load_tasks_eq add_enrich_tasks_eq prod.case)
  apply (intro on_success_verify_returns conditional_verify_returns last_verify_returns assms)
  done

text \<open>
  C5. The task graph is constructed whenever the verification SQL files can be read. In a
  constructed graph: for chain \<^verbatim>\<open>dogecoin\<close> there is no task
  \<^verbatim>\<open>verify_transactions_fees\<close>; for chain \<^verbatim>\<open>zcash\<close> there is neither
  \<^verbatim>\<open>verify_transaction_inputs_count_empty\<close> nor
  \<^verbatim>\<open>verify_transaction_outputs_count_empty\<close>; for every other chain all ten
  verification tasks are present. The verification tasks are, in order of creation, the
  ten of the list less those two exceptions.
\<close>

theorem verification_tasks_by_chain:
  "((\<forall>task. file_system p (verify_sql_path p task) \<noteq> None) \<longrightarrow>
      (\<exists>d. build_load_dag p = Inr d)) \<and>
   (\<forall>d. build_load_dag p = Inr d \<longrightarrow>
      (chain p = ''dogecoin'' \<longrightarrow> ''verify_transactions_fees'' \<notin> set (task_ids d)) \<and>
      (chain p = ''zcash'' \<longrightarrow>
         ''verify_transaction_inputs_count_empty'' \<notin> set (task_ids d) \<and>
         ''verify_transaction_outputs_count_empty'' \<notin> set (task_ids d)) \<and>
      (chain p \<noteq> ''dogecoin'' \<and> chain p \<noteq> ''zcash'' \<longrightarrow>
         set [''verify_blocks_count'', ''verify_blocks_have_latest'',
              ''verify_transactions_count'', ''verify_transactions_have_latest'',
              ''verify_transactions_fees'', ''verify_coinbase_transactions_count'',
              ''verify_transaction_inputs_count'', ''verify_transaction_outputs_count'',
              ''verify_transaction_inputs_count_empty'',
              ''verify_transaction_outputs_count_empty'']
         \<subseteq> set (task_ids d)) \<and>
      filter (prefix ''verify_'') (task_ids d) =
        [''verify_blocks_count'', ''verify_blocks_have_latest'',
         ''verify_transactions_count'', ''verify_transactions_have_latest'']
        @ (if chain p \<noteq> ''dogecoin'' then [''verify_transactions_fees''] else [])
        @ [''verify_coinbase_transactions_count'', ''verify_transaction_inputs_count'',
           ''verify_transaction_outputs_count'']
        @ (if chain p \<noteq> ''zcash''
           then [''verify_transaction_inputs_count_empty'',
                 ''verify_transaction_outputs_count_empty'']
           else []))"
proof (intro conjI allI impI)
  assume "\<forall>task. file_system p (verify_sql_path p task) \<noteq> None"
  then show "\<exists>d. build_load_dag p = Inr d"
    by (intro build_load_dag_returns) simp
next
  fix d assume d: "build_load_dag p = Inr d"
  note ids = build_load_dag_structure(1) [OF d]
  show "''verify_transactions_fees'' \<notin> set (task_ids d)" if "chain p = ''dogecoin''"
    using that by (simp add: ids)
  show "''verify_transaction_inputs_count_empty'' \<notin> set (task_ids d)" if "chain p = ''zcash''"
    using that by (simp add: ids)
  show "''verify_transaction_outputs_count_empty'' \<notin> set (task_ids d)" if "chain p = ''zcash''"
    using that by (simp add: ids)
  show "set [''verify_blocks_count'', ''verify_blocks_have_latest'',
              ''verify_transactions_count'', ''verify_transactions_have_latest'',
              ''verify_transactions_fees'', ''verify_coinbase_transactions_count'',
              ''verify_transaction_inputs_count'', ''verify_transaction_outputs_count'',
              ''verify_transaction_inputs_count_empty'',
              ''verify_transaction_outputs_count_empty'']
         \<subseteq> set (task_ids d)" if "chain p \<noteq> ''dogecoin'' \<and> chain p \<noteq> ''zcash''"
    using that by (simp add: ids)
  show "filter (prefix ''verify_'') (task_ids d) =
        [''verify_blocks_count'', ''verify_blocks_have_latest'',
         ''verify_transactions_count'', ''verify_transactions_have_latest'']
        @ (if chain p \<noteq> ''dogecoin'' then [''verify_transactions_fees''] else [])
        @ [''verify_coinbase_transactions_count'', ''verify_transaction_inputs_count'',
           ''verify_transaction_outputs_count'']
        @ (if chain p \<noteq> ''zcash''
           then [''verify_transaction_inputs_count_empty'',
                 ''verify_transaction_outputs_count_empty'']
           else [])"
    by (simp add: ids)
qed

theorem verification_tasks_by_chain_witness:
  "(\<exists>d. build_load_dag (example_pipeline\<lparr>chain := ''dogecoin''\<rparr>) = Inr d \<and>
        ''verify_transactions_fees'' \<notin> set (task_ids d) \<and>
        ''verify_transaction_inputs_count_empty'' \<in> set (task_ids d)) \<and>
   (\<exists>d. build_load_dag (example_pipeline\<lparr>chain := ''zcash''\<rparr>) = Inr d \<and>
        ''verify_transaction_inputs_count_empty'' \<notin> set (task_ids d) \<and>
        ''verify_transaction_outputs_count_empty'' \<notin> set (task_ids d) \<and>
        ''verify_transactions_fees'' \<in> set (task_ids d)) \<and>
   (\<exists>d. build_load_dag (example_pipeline\<lparr>chain := ''bitcoin''\<rparr>) = Inr d \<and>
        filter (prefix ''verify_'') (task_ids d) =
          [''verify_blocks_count'', ''verify_blocks_have_latest'',
           ''verify_transactions_count'', ''verify_transactions_have_latest'',
           ''verify_transactions_fees'', ''verify_coinbase_transactions_count'',
           ''verify_transaction_inputs_count'', ''verify_transaction_outputs_count'',
           ''verify_transaction_inputs_count_empty'',
           ''verify_transaction_outputs_count_empty''])"
proof -
  have files: "\<forall>task. file_system (example_pipeline\<lparr>chain := c\<rparr>)
                  (verify_sql_path (example_pipeline\<lparr>chain := c\<rparr>) task) \<noteq> None" for c
    by (simp add: example_pipeline_def example_files_def suffix_to_prefix verify_sql_path_def path_join_def dags_folder_def)
  have chains: "chain (example_pipeline\<lparr>chain := c\<rparr>) = c" for c
    by simp
  note doge = verification_tasks_by_chain [of "example_pipeline\<lparr>chain := ''dogecoin''\<rparr>"]
  note zcash = verification_tasks_by_chain [of "example_pipeline\<lparr>chain := ''zcash''\<rparr>"]
  note btc = verification_tasks_by_chain [of "example_pipeline\<lparr>chain := ''bitcoin''\<rparr>"]
  from doge [THEN conjunct1, rule_format, OF files [rule_format]] obtain d1 where
    d1: "build_load_dag (example_pipeline\<lparr>chain := ''dogecoin''\<rparr>) = Inr d1" ..
  from zcash [THEN conjunct1, rule_format, OF files [rule_format]] obtain d2 where
    d2: "build_load_dag (example_pipeline\<lparr>chain := ''zcash''\<rparr>) = Inr d2" ..
  from btc [THEN conjunct1, rule_format, OF files [rule_format]] obtain d3 where
    d3: "build_load_dag (example_pipeline\<lparr>chain := ''bitcoin''\<rparr>) = Inr d3" ..
  note r1 = doge [THEN conjunct2, THEN spec, THEN mp, OF d1, unfolded chains]
  note r2 = zcash [THEN conjunct2, THEN spec, THEN mp, OF d2, unfolded chains]
  note r3 = btc [THEN conjunct2, THEN spec, THEN mp, OF d3, unfolded chains]
  have v: "x \<in> set xs" if "x \<in> set (filter (prefix ''verify_'') xs)" for x and xs :: "string list"
    using that by simp
  have a1: "''verify_transactions_fees'' \<notin> set (task_ids d1)"
    using r1 [THEN conjunct1] by simp
  have f1: "filter (prefix ''verify_'') (task_ids d1) =
        [''verify_blocks_count'', ''verify_blocks_have_latest'',
         ''verify_transactions_count'', ''verify_transactions_have_latest'',
         ''verify_coinbase_transactions_count'', ''verify_transaction_inputs_count'',
         ''verify_transaction_outputs_count'', ''verify_transaction_inputs_count_empty'',
         ''verify_transaction_outputs_count_empty'']"
    using r1 [THEN conjunct2, THEN conjunct2, THEN conjunct2] by simp
  have b1: "''verify_transaction_inputs_count_empty'' \<in> set (task_ids d1)"
    by (rule v) (simp add: f1)
  have a2: "''verify_transaction_inputs_count_empty'' \<notin> set (task_ids d2) \<and>
            ''verify_transaction_outputs_count_empty'' \<notin> set (task_ids d2)"
    using r2 [THEN conjunct2, THEN conjunct1] by simp
  have f2: "filter (prefix ''verify_'') (task_ids d2) =
        [''verify_blocks_count'', ''verify_blocks_have_latest'',
         ''verify_transactions_count'', ''verify_transactions_have_latest'',
         ''verify_transactions_fees'',
         ''verify_coinbase_transactions_count'', ''verify_transaction_inputs_count'',
         ''verify_transaction_outputs_count'']"
    using r2 [THEN conjunct2, THEN conjunct2, THEN conjunct2] by simp
  have b2: "''verify_transactions_fees'' \<in> set (task_ids d2)"
    by (rule v) (simp add: f2)
  have f3: "filter (prefix ''verify_'') (task_ids d3) =
          [''verify_blocks_count'', ''verify_blocks_have_latest'',
           ''verify_transactions_count'', ''verify_transactions_have_latest'',
           ''verify_transactions_fees'', ''verify_coinbase_transactions_count'',
           ''verify_transaction_inputs_count'', ''verify_transaction_outputs_count'',
           ''verify_transaction_inputs_count_empty'',
           ''verify_transaction_outputs_count_empty'']"
    using r3 [THEN conjunct2, THEN conjunct2, THEN conjunct2] by simp
  show ?thesis
  proof (intro conjI)
    show "\<exists>d. build_load_dag (example_pipeline\<lparr>chain := ''dogecoin''\<rparr>) = Inr d \<and>
        ''verify_transactions_fees'' \<notin> set (task_ids d) \<and>
        ''verify_transaction_inputs_count_empty'' \<in> set (task_ids d)"
      using d1 a1 b1 by (intro exI [of _ d1] conjI)
    show "\<exists>d. build_load_dag (example_pipeline\<lparr>chain := ''zcash''\<rparr>) = Inr d \<and>
        ''verify_transaction_inputs_count_empty'' \<notin> set (task_ids d) \<and>
        ''verify_transaction_outputs_count_empty'' \<notin> set (task_ids d) \<and>
        ''verify_transactions_fees'' \<in> set (task_ids d)"
      using d2 a2 b2 by (intro exI [of _ d2] conjI) simp_all
    show "\<exists>d. build_load_dag (example_pipeline\<lparr>chain := ''bitcoin''\<rparr>) = Inr d \<and>
        filter (prefix ''verify_'') (task_ids d) =
          [''verify_blocks_count'', ''verify_blocks_have_latest'',
           ''verify_transactions_count'', ''verify_transactions_have_latest'',
           ''verify_transactions_fees'', ''verify_coinbase_transactions_count'',
           ''verify_transaction_inputs_count'', ''verify_transaction_outputs_count'',
           ''verify_transaction_inputs_count_empty'',
           ''verify_transaction_outputs_count_empty'']"
      using d3 f3 by (intro exI [of _ d3] conjI)
  qed
qed

lemma path_into:
  "is_path d (xs @ [a, t]) \<Longrightarrow> a \<in> set (upstream d t)"
proof (induction xs)
  case Nil
  then show ?case by (force simp: upstream_def)
next
  case (Cons x xs)
  then show ?case by (cases xs) auto
qed

lemma path_through_only_upstream:
  assumes "is_path d path" "path \<noteq> []" "last path = t" "hd path \<noteq> t" "upstream d t = [u]"
  shows "u \<in> set path"
proof -
  from assms(2,3,4) obtain xs a where "path = xs @ [a, t]"
    by (metis append_butlast_last_id hd_append2 last_snoc list.sel(1) snoc_eq_iff_butlast
        append.assoc append_Cons append_Nil)
  with path_into [of d xs a t] assms(1,5) show ?thesis by simp
qed

text \<open>
  C8. In a constructed task graph the tasks \<^verbatim>\<open>enrich_inputs\<close> and \<^verbatim>\<open>enrich_outputs\<close>
  each have one declared dependency, \<^verbatim>\<open>enrich_transactions\<close>, which in turn depends
  on \<^verbatim>\<open>load_transactions\<close> alone. No edge leads from a load task to either of them:
  every path from a load task to one of them passes through \<^verbatim>\<open>enrich_transactions\<close>,
  and such a path exists.
\<close>

theorem inputs_outputs_depend_on_transactions_enrichment:
  assumes "build_load_dag p = Inr d"
  shows "upstream d ''enrich_inputs'' = [''enrich_transactions''] \<and>
         upstream d ''enrich_outputs'' = [''enrich_transactions''] \<and>
         upstream d ''enrich_transactions'' = [''load_transactions''] \<and>
         (\<forall>path t. is_path d path \<and> path \<noteq> [] \<and>
            hd path \<in> {''load_blocks'', ''load_transactions''} \<and> last path = t \<and>
            t \<in> {''enrich_inputs'', ''enrich_outputs''}
            \<longrightarrow> ''enrich_transactions'' \<in> set path) \<and>
         is_path d [''load_transactions'', ''enrich_transactions'', ''enrich_inputs''] \<and>
         is_path d [''load_transactions'', ''enrich_transactions'', ''enrich_outputs'']"
proof -
  note es = build_load_dag_structure(2) [OF assms]
  have u1: "upstream d ''enrich_inputs'' = [''enrich_transactions'']"
    and u2: "upstream d ''enrich_outputs'' = [''enrich_transactions'']"
    and u3: "upstream d ''enrich_transactions'' = [''load_transactions'']"
    by (simp_all add: upstream_def es)
  have p1: "is_path d [''load_transactions'', ''enrich_transactions'', ''enrich_inputs'']"
    and p2: "is_path d [''load_transactions'', ''enrich_transactions'', ''enrich_outputs'']"
    by (simp_all add: es)
  have through: "''enrich_transactions'' \<in> set path"
    if "is_path d path \<and> path \<noteq> [] \<and>
        hd path \<in> {''load_blocks'', ''load_transactions''} \<and> last path = t \<and>
        t \<in> {''enrich_inputs'', ''enrich_outputs''}" for path t
  proof -
    from that have "hd path \<noteq> t" by auto
    moreover from that u1 u2 have "upstream d t = [''enrich_transactions'']" by auto
    ultimately show ?thesis
      using that path_through_only_upstream [of d path t "''enrich_transactions''"] by blast
  qed
  show ?thesis
    using u1 u2 u3 p1 p2 through by blast
qed

theorem inputs_outputs_depend_on_transactions_enrichment_witness:
  "\<exists>d. build_load_dag example_pipeline = Inr d \<and>
       upstream d ''enrich_inputs'' = [''enrich_transactions''] \<and>
       upstream d ''enrich_outputs'' = [''enrich_transactions''] \<and>
       is_path d [''load_transactions'', ''enrich_transactions'', ''enrich_inputs'']"
proof -
  have "\<And>task. file_system example_pipeline (verify_sql_path example_pipeline task) \<noteq> None"
    by (simp add: example_pipeline_def example_files_def suffix_to_prefix verify_sql_path_def path_join_def dags_folder_def)
  then obtain d where d: "build_load_dag example_pipeline = Inr d"
    using build_load_dag_returns by blast
  from inputs_outputs_depend_on_transactions_enrichment [OF d] d show ?thesis
    by (intro exI [of _ d]) simp
qed

text \<open>The sensor of a load task is its only declared dependency.\<close>

lemma load_waits_for_sensor:
  assumes "build_load_dag p = Inr d"
  shows "upstream d ''load_blocks'' = [''wait_latest_blocks'']"
    and "upstream d ''load_transactions'' = [''wait_latest_transactions'']"
  by (simp_all add: upstream_def build_load_dag_structure(2) [OF assms])

text \<open>
  C4, amended. The query that table-mode enrichment submits and the SQL of every
  verification operator are the corresponding SQL file with the environment of the
  pipeline substituted. The query of the view that view-mode enrichment creates is the
  SQL file read with no environment and formatted with \<^verbatim>\<open>chain\<close> by \<^verbatim>\<open>str.format\<close>;
  view mode submits no query.
\<close>

theorem sql_from_environment_except_views:
  "(\<forall>outcome sent text loc config.
      enrich_task p task tpf False ms w = (outcome, sent) \<and> Query text loc config \<in> set sent \<longrightarrow>
      read_file (file_system p) (sql_path p task) (Some (pipeline_environment p)) = Inr text) \<and>
   (\<forall>d n text legacy.
      build_load_dag p = Inr d \<and> n \<in> set (tasks d) \<and> operator n = BigQueryOperator text legacy \<longrightarrow>
      (\<exists>rule. task_id n = ''verify_'' @ rule \<and>
         read_file (file_system p) (verify_sql_path p rule) (Some (pipeline_environment p))
           = Inr text)) \<and>
   (\<forall>outcome sent t.
      enrich_task p task tpf True ms w = (outcome, sent) \<and> CreateTable t \<in> set sent \<longrightarrow>
      (\<exists>template text.
         read_file (file_system p) (sql_path p task) None = Inr template \<and>
         str_format p template (chain p) = Inr text \<and> view_query t = Some text) \<and>
      (\<forall>text loc config. Query text loc config \<notin> set sent))"
proof (intro conjI allI impI)
  fix outcome sent sql_text loc config
  assume a: "enrich_task p task tpf False ms w = (outcome, sent) \<and>
             Query sql_text loc config \<in> set sent"
  then have "enrich_table p task tpf ms w = (outcome, sent)"
    by (simp add: enrich_task_def)
  from enrich_table_stages [OF this] a
  show "read_file (file_system p) (sql_path p task) (Some (pipeline_environment p))
        = Inr sql_text"
    by (elim disjE exE conjE) (auto simp: query_request_def copy_request_def)
next
  fix d n sql_text legacy
  assume a: "build_load_dag p = Inr d \<and> n \<in> set (tasks d) \<and>
             operator n = BigQueryOperator sql_text legacy"
  then have "verify_sql_read p d"
    by (intro build_load_dag_structure(3)) simp
  with a show "\<exists>rule. task_id n = ''verify_'' @ rule \<and>
         read_file (file_system p) (verify_sql_path p rule) (Some (pipeline_environment p))
           = Inr sql_text"
    unfolding verify_sql_read_def by blast
next
  fix outcome sent t
  assume a: "enrich_task p task tpf True ms w = (outcome, sent) \<and> CreateTable t \<in> set sent"
  then have v: "enrich_view p task tpf ms w = (outcome, sent)"
    by (simp add: enrich_task_def)
  from enrich_view_stages [OF v] a
  show "\<exists>template text.
         read_file (file_system p) (sql_path p task) None = Inr template \<and>
         str_format p template (chain p) = Inr text \<and> view_query t = Some text"
    by (elim disjE exE conjE) (auto simp: copy_request_def)
  fix sql_text loc config
  from enrich_view_stages [OF v]
  show "Query sql_text loc config \<notin> set sent"
    by (elim disjE exE conjE) (auto simp: copy_request_def)
qed

lemma example_verify_sql:
  "read_file (file_system example_pipeline) (verify_sql_path example_pipeline rule)
     (Some (pipeline_environment example_pipeline)) = Inr ''bitcoin_blockchain.transactions''"
  by (simp add: example_defs)

lemma example_dag:
  "build_load_dag example_pipeline = Inr
     \<lparr>tasks =
        [\<lparr>task_id = ''wait_latest_blocks'',
          operator = GoogleCloudStorageObjectSensor 3600 60 ''bucket''
                       ''export/blocks/block_date={{ds}}/blocks.json''\<rparr>,
         \<lparr>task_id = ''load_blocks'',
          operator = PythonOperator (LoadTask ''blocks'' ''json'' False) 30\<rparr>,
         \<lparr>task_id = ''wait_latest_transactions'',
          operator = GoogleCloudStorageObjectSensor 3600 60 ''bucket''
                       ''export/transactions/block_date={{ds}}/transactions.json''\<rparr>,
         \<lparr>task_id = ''load_transactions'',
          operator = PythonOperator (LoadTask ''transactions'' ''json'' False) 30\<rparr>,
         \<lparr>task_id = ''enrich_blocks'',
          operator = PythonOperator (EnrichTask ''blocks'' (Some ''timestamp_month'') False) 60\<rparr>,
         \<lparr>task_id = ''enrich_transactions'',
          operator = PythonOperator
                       (EnrichTask ''transactions'' (Some ''block_timestamp_month'') False) 60\<rparr>,
         \<lparr>task_id = ''enrich_inputs'',
          operator = PythonOperator (EnrichTask ''inputs'' None True) 60\<rparr>,
         \<lparr>task_id = ''enrich_outputs'',
          operator = PythonOperator (EnrichTask ''outputs'' None True) 60\<rparr>,
         \<lparr>task_id = ''verify_blocks_count'',
          operator = BigQueryOperator ''bitcoin_blockchain.transactions'' False\<rparr>,
         \<lparr>task_id = ''verify_blocks_have_latest'',
          operator = BigQueryOperator ''bitcoin_blockchain.transactions'' False\<rparr>,
         \<lparr>task_id = ''verify_transactions_count'',
          operator = BigQueryOperator ''bitcoin_blockchain.transactions'' False\<rparr>,
         \<lparr>task_id = ''verify_transactions_have_latest'',
          operator = BigQueryOperator ''bitcoin_blockchain.transactions'' False\<rparr>,
         \<lparr>task_id = ''verify_transactions_fees'',
          operator = BigQueryOperator ''bitcoin_blockchain.transactions'' False\<rparr>,
         \<lparr>task_id = ''verify_coinbase_transactions_count'',
          operator = BigQueryOperator ''bitcoin_blockchain.transactions'' False\<rparr>,
         \<lparr>task_id = ''verify_transaction_inputs_count'',
          operator = BigQueryOperator ''bitcoin_blockchain.transactions'' False\<rparr>,
         \<lparr>task_id = ''verify_transaction_outputs_count'',
          operator = BigQueryOperator ''bitcoin_blockchain.transactions'' False\<rparr>,
         \<lparr>task_id = ''verify_transaction_inputs_count_empty'',
          operator = BigQueryOperator ''bitcoin_blockchain.transactions'' False\<rparr>,
         \<lparr>task_id = ''verify_transaction_outputs_count_empty'',
          operator = BigQueryOperator ''bitcoin_blockchain.transactions'' False\<rparr>],
      edges =
        [(''wait_latest_blocks'', ''load_blocks''),
         (''wait_latest_transactions'', ''load_transactions''),
         (''load_blocks'', ''enrich_blocks''),
         (''load_transactions'', ''enrich_transactions''),
         (''enrich_transactions'', ''enrich_inputs''),
         (''enrich_transactions'', ''enrich_outputs''),
         (''enrich_blocks'', ''verify_blocks_count''),
         (''enrich_blocks'', ''verify_blocks_have_latest''),
         (''enrich_blocks'', ''verify_transactions_count''),
         (''enrich_transactions'', ''verify_transactions_count''),
         (''enrich_transactions'', ''verify_transactions_have_latest''),
         (''enrich_transactions'', ''verify_transactions_fees''),
         (''enrich_blocks'', ''verify_coinbase_transactions_count''),
         (''enrich_transactions'', ''verify_coinbase_transactions_count''),
         (''enrich_transactions'', ''verify_transaction_inputs_count''),
         (''enrich_transactions'', ''verify_transaction_outputs_count''),
         (''enrich_transactions'', ''verify_transaction_inputs_count_empty''),
         (''enrich_transactions'', ''verify_transaction_outputs_count_empty'')]\<rparr>"
proof -
  have c: "chain example_pipeline = ''bitcoin''" "output_bucket example_pipeline = ''bucket''"
    by (simp_all add: example_pipeline_def)
  show ?thesis
    by (simp add: build_load_dag_def add_load_tasks_eq add_enrich_tasks_eq empty_dag_def
          add_verify_tasks_def example_verify_sql add_task_def add_dependencies_Some c)
qed

text \<open>
  C4. The claim as stated has the view-definition query of view mode produced by the
  substitution of the environment. For a SQL file \<^verbatim>\<open>{{dataset_name}}.transactions\<close> the
  view is created with the query \<^verbatim>\<open>{dataset_name}.transactions\<close> (\<^verbatim>\<open>str.format\<close> turns
  each doubled brace into a single one), while the substitution of the environment gives
  \<^verbatim>\<open>bitcoin_blockchain.transactions\<close>.
\<close>

theorem view_sql_not_from_environment_counterexample:
  "file_system example_pipeline (sql_path example_pipeline ''inputs'')
   = Some ''{{dataset_name}}.transactions'' \<and>
   enrich_task example_pipeline ''inputs'' None True 1530403200000
     (all_succeed ''inputs_1530403200000'')
   = (Inr (),
      [CreateTable \<lparr>table_reference = \<lparr>project = ''etl'', dataset_id = ''bitcoin_blockchain_temp'',
                                        table_id = ''inputs_1530403200000''\<rparr>,
                    table_description = Some ''Enriched table'',
                    time_partitioning = None, table_schema = [],
                    view_query = Some ''{dataset_name}.transactions'',
                    view_use_legacy_sql = Some False\<rparr>,
       CopyTable \<lparr>project = ''etl'', dataset_id = ''bitcoin_blockchain_temp'',
                   table_id = ''inputs_1530403200000''\<rparr>
                 \<lparr>project = ''warehouse'', dataset_id = ''bitcoin_blockchain'',
                   table_id = ''inputs''\<rparr> ''US'' \<lparr>write_disposition = ''WRITE_TRUNCATE''\<rparr>,
       DeleteTable \<lparr>project = ''etl'', dataset_id = ''bitcoin_blockchain_temp'',
                     table_id = ''inputs_1530403200000''\<rparr>]) \<and>
   read_file (file_system example_pipeline) (sql_path example_pipeline ''inputs'')
     (Some (pipeline_environment example_pipeline)) = Inr ''bitcoin_blockchain.transactions'' \<and>
   Some ''{dataset_name}.transactions'' \<noteq> Some ''bitcoin_blockchain.transactions''"
  by (simp add: example_run_view example_environment_sql) (simp add: example_defs)

theorem sql_from_environment_except_views_witness:
  "Query ''bitcoin_blockchain.transactions'' ''US''
     \<lparr>priority = ''INTERACTIVE'',
      destination = \<lparr>project = ''etl'', dataset_id = ''bitcoin_blockchain_temp'',
                      table_id = ''blocks_1530403200000''\<rparr>\<rparr>
   \<in> set (snd (enrich_task example_pipeline ''blocks'' (Some ''timestamp_month'') False
                 1530403200000 (all_succeed ''blocks_1530403200000''))) \<and>
   read_file (file_system example_pipeline) (sql_path example_pipeline ''blocks'')
     (Some (pipeline_environment example_pipeline)) = Inr ''bitcoin_blockchain.transactions'' \<and>
   (\<exists>d. build_load_dag example_pipeline = Inr d \<and>
      \<lparr>task_id = ''verify_blocks_count'',
       operator = BigQueryOperator ''bitcoin_blockchain.transactions'' False\<rparr> \<in> set (tasks d)) \<and>
   (\<exists>rule. ''verify_blocks_count'' = ''verify_'' @ rule \<and>
      read_file (file_system example_pipeline) (verify_sql_path example_pipeline rule)
        (Some (pipeline_environment example_pipeline)) = Inr ''bitcoin_blockchain.transactions'') \<and>
   (\<exists>t. CreateTable t
          \<in> set (snd (enrich_task example_pipeline ''inputs'' None True 1530403200000
                        (all_succeed ''inputs_1530403200000''))) \<and>
        (\<exists>template.
           read_file (file_system example_pipeline) (sql_path example_pipeline ''inputs'') None
             = Inr template \<and>
           str_format example_pipeline template (chain example_pipeline) = Inr ''{dataset_name}.transactions'' \<and>
           view_query t = Some ''{dataset_name}.transactions''))"
proof -
  note T = sql_from_environment_except_views
  let ?q = "Query ''bitcoin_blockchain.transactions'' ''US''
     \<lparr>priority = ''INTERACTIVE'',
      destination = \<lparr>project = ''etl'', dataset_id = ''bitcoin_blockchain_temp'',
                      table_id = ''blocks_1530403200000''\<rparr>\<rparr>"
  let ?n = "\<lparr>task_id = ''verify_blocks_count'',
       operator = BigQueryOperator ''bitcoin_blockchain.transactions'' False\<rparr>"
  let ?t = "\<lparr>table_reference = \<lparr>project = ''etl'', dataset_id = ''bitcoin_blockchain_temp'',
                                        table_id = ''inputs_1530403200000''\<rparr>,
                    table_description = Some ''Enriched table'',
                    time_partitioning = None, table_schema = [],
                    view_query = Some ''{dataset_name}.transactions'',
                    view_use_legacy_sql = Some False\<rparr>"
  have q: "?q \<in> set (snd (enrich_task example_pipeline ''blocks'' (Some ''timestamp_month'')
                 False 1530403200000 (all_succeed ''blocks_1530403200000'')))"
    by (simp add: example_run_table)
  have a: "read_file (file_system example_pipeline) (sql_path example_pipeline ''blocks'')
     (Some (pipeline_environment example_pipeline)) = Inr ''bitcoin_blockchain.transactions''"
    using T [THEN conjunct1, rule_format, OF conjI, OF example_run_table] q
    by (simp add: example_run_table)
  have n: "?n \<in> set (tasks (the_dag))" if "build_load_dag example_pipeline = Inr the_dag"
    for the_dag
    using that by (auto simp: example_dag)
  obtain d where d: "build_load_dag example_pipeline = Inr d"
    by (simp add: example_dag)
  have b: "\<exists>rule. ''verify_blocks_count'' = ''verify_'' @ rule \<and>
      read_file (file_system example_pipeline) (verify_sql_path example_pipeline rule)
        (Some (pipeline_environment example_pipeline)) = Inr ''bitcoin_blockchain.transactions''"
  proof -
    from T [of example_pipeline] have
      "build_load_dag example_pipeline = Inr d \<and> ?n \<in> set (tasks d) \<and>
       operator ?n = BigQueryOperator ''bitcoin_blockchain.transactions'' False \<longrightarrow>
       (\<exists>rule. task_id ?n = ''verify_'' @ rule \<and>
          read_file (file_system example_pipeline) (verify_sql_path example_pipeline rule)
            (Some (pipeline_environment example_pipeline))
          = Inr ''bitcoin_blockchain.transactions'')"
      by blast
    with d n [OF d] show ?thesis by simp
  qed
  have t: "CreateTable ?t \<in> set (snd (enrich_task example_pipeline ''inputs'' None True
             1530403200000 (all_succeed ''inputs_1530403200000'')))"
    by (simp add: example_run_view)
  have c: "\<exists>template.
           read_file (file_system example_pipeline) (sql_path example_pipeline ''inputs'') None
             = Inr template \<and>
           str_format example_pipeline template (chain example_pipeline) = Inr ''{dataset_name}.transactions'' \<and>
           view_query ?t = Some ''{dataset_name}.transactions''"
    using T [THEN conjunct2, THEN conjunct2, rule_format, OF conjI, OF example_run_view,
             THEN conjunct1] t
    by (simp add: example_run_view)
  show ?thesis
    using q a d n [OF d] b t c by blast
qed

end
